theory Spec2Isabelle
  imports Complex_Main
begin

section \<open>Kernel-PCA anomaly detector: a model of \<^verbatim>\<open>Kpca.py\<close>\<close>

text \<open>
  The class \<^verbatim>\<open>kPCA\<close> is modelled method by method. Conventions:
  \<^item> A numpy float is a value of \<open>npfloat\<close>: a finite value carries an exact real (no
    rounding, no overflow, no signed zero), and the three special values
    \<open>inf\<close>, \<open>-inf\<close> and \<open>nan\<close> are kept, because numpy returns them (with a warning
    only) where HOL's total division and square root would return a number.
  \<^item> A 2-d array is the list of its rows. An array without rows carries no
    column count; where numpy compares column counts, an array without rows is
    compatible with everything, and \<^verbatim>\<open>fit\<close>, which reads \<^verbatim>\<open>X.shape[1]\<close>, takes the column
    count of such an array as an argument of its own.
  \<^item> A Python exception is a value \<open>Inl e\<close>; a method that assigns to \<^verbatim>\<open>self\<close>
    returns the updated object next to its result.
  \<^item> The routines of numpy and scipy that the class calls and does not define
    (\<^verbatim>\<open>eigh\<close>, \<^verbatim>\<open>np.random.permutation\<close>, \<^verbatim>\<open>np.quantile\<close>) are parameters, collected
    in the record \<open>numlib\<close>.
  \<^item> Printing under \<^verbatim>\<open>verbose\<close> is left out.
\<close>

subsection \<open>Floats with \<open>inf\<close> and \<open>nan\<close>\<close>

datatype npfloat = Fin real | PosInf | NegInf | NaN

fun np_neg :: "npfloat \<Rightarrow> npfloat" where
  "np_neg (Fin a) = Fin (- a)"
| "np_neg PosInf = NegInf"
| "np_neg NegInf = PosInf"
| "np_neg NaN = NaN"

fun np_add :: "npfloat \<Rightarrow> npfloat \<Rightarrow> npfloat" where
  "np_add (Fin a) (Fin b) = Fin (a + b)"
| "np_add NaN _ = NaN"
| "np_add _ NaN = NaN"
| "np_add PosInf NegInf = NaN"
| "np_add NegInf PosInf = NaN"
| "np_add PosInf _ = PosInf"
| "np_add _ PosInf = PosInf"
| "np_add NegInf _ = NegInf"
| "np_add _ NegInf = NegInf"

definition np_sub :: "npfloat \<Rightarrow> npfloat \<Rightarrow> npfloat" where
  "np_sub x y = np_add x (np_neg y)"

fun np_mul :: "npfloat \<Rightarrow> npfloat \<Rightarrow> npfloat" where
  "np_mul (Fin a) (Fin b) = Fin (a * b)"
| "np_mul NaN _ = NaN"
| "np_mul _ NaN = NaN"
| "np_mul PosInf (Fin b) = (if 0 < b then PosInf else if b < 0 then NegInf else NaN)"
| "np_mul NegInf (Fin b) = (if 0 < b then NegInf else if b < 0 then PosInf else NaN)"
| "np_mul (Fin a) PosInf = (if 0 < a then PosInf else if a < 0 then NegInf else NaN)"
| "np_mul (Fin a) NegInf = (if 0 < a then NegInf else if a < 0 then PosInf else NaN)"
| "np_mul PosInf PosInf = PosInf"
| "np_mul PosInf NegInf = NegInf"
| "np_mul NegInf PosInf = NegInf"
| "np_mul NegInf NegInf = PosInf"

fun np_div :: "npfloat \<Rightarrow> npfloat \<Rightarrow> npfloat" where
  "np_div (Fin a) (Fin b) =
     (if b \<noteq> 0 then Fin (a / b)
      else if 0 < a then PosInf else if a < 0 then NegInf else NaN)"
| "np_div NaN _ = NaN"
| "np_div _ NaN = NaN"
| "np_div (Fin a) PosInf = Fin 0"
| "np_div (Fin a) NegInf = Fin 0"
| "np_div PosInf (Fin b) = (if 0 \<le> b then PosInf else NegInf)"
| "np_div NegInf (Fin b) = (if 0 \<le> b then NegInf else PosInf)"
| "np_div PosInf PosInf = NaN"
| "np_div PosInf NegInf = NaN"
| "np_div NegInf PosInf = NaN"
| "np_div NegInf NegInf = NaN"

fun np_sqrt :: "npfloat \<Rightarrow> npfloat" where
  "np_sqrt (Fin a) = (if 0 \<le> a then Fin (sqrt a) else NaN)"
| "np_sqrt PosInf = PosInf"
| "np_sqrt NegInf = NaN"
| "np_sqrt NaN = NaN"

fun np_exp :: "npfloat \<Rightarrow> npfloat" where
  "np_exp (Fin a) = Fin (exp a)"
| "np_exp PosInf = PosInf"
| "np_exp NegInf = Fin 0"
| "np_exp NaN = NaN"

text \<open>The comparison \<^verbatim>\<open><\<close>: false as soon as one side is \<open>nan\<close>.\<close>

fun np_lt :: "npfloat \<Rightarrow> npfloat \<Rightarrow> bool" where
  "np_lt (Fin a) (Fin b) = (a < b)"
| "np_lt NaN _ = False"
| "np_lt _ NaN = False"
| "np_lt _ NegInf = False"
| "np_lt PosInf _ = False"
| "np_lt NegInf _ = True"
| "np_lt _ PosInf = True"

text \<open>The comparison \<^verbatim>\<open>>=\<close>, false as well as soon as one side is \<open>nan\<close>.\<close>

fun np_ge :: "npfloat \<Rightarrow> npfloat \<Rightarrow> bool" where
  "np_ge (Fin a) (Fin b) = (b \<le> a)"
| "np_ge NaN _ = False"
| "np_ge _ NaN = False"
| "np_ge PosInf _ = True"
| "np_ge _ NegInf = True"
| "np_ge _ PosInf = False"
| "np_ge NegInf _ = False"

fun is_finite :: "npfloat \<Rightarrow> bool" where
  "is_finite (Fin a) = True"
| "is_finite _ = False"

subsection \<open>Arrays\<close>

type_synonym vec = "npfloat list"
type_synonym matrix = "npfloat list list"

text \<open>What \<^verbatim>\<open>decision_function\<close> and \<^verbatim>\<open>predict\<close> may be handed: \<^verbatim>\<open>ndim\<close> is 1 or 2.\<close>

datatype ndarray = Array1 vec | Array2 matrix

definition ncols :: "'a list list \<Rightarrow> nat" where
  "ncols M = (case M of [] \<Rightarrow> 0 | r # _ \<Rightarrow> length r)"

definition column :: "nat \<Rightarrow> 'a list list \<Rightarrow> 'a list" where
  "column j M = map (\<lambda>r. r ! j) M"

primrec np_sum :: "vec \<Rightarrow> npfloat" where
  "np_sum [] = Fin 0"
| "np_sum (x # xs) = np_add x (np_sum xs)"

text \<open>\<^verbatim>\<open>M.sum(axis = 0)\<close> for an array with \<open>n\<close> columns.\<close>

definition sum_axis0 :: "nat \<Rightarrow> matrix \<Rightarrow> vec" where
  "sum_axis0 n M = map (\<lambda>j. np_sum (column j M)) [0..<n]"

definition dot :: "vec \<Rightarrow> vec \<Rightarrow> npfloat" where
  "dot u v = np_sum (map2 np_mul u v)"

text \<open>\<^verbatim>\<open>A.dot(B)\<close> for 2-d arrays, \<open>B\<close> with at least one row.\<close>

definition matmul :: "matrix \<Rightarrow> matrix \<Rightarrow> matrix" where
  "matmul A B = map (\<lambda>a. map (\<lambda>j. dot a (column j B)) [0..<ncols B]) A"

text \<open>\<^verbatim>\<open>A.dot(B.T)\<close>, both arrays given by their rows.\<close>

definition dot_T :: "matrix \<Rightarrow> matrix \<Rightarrow> matrix" where
  "dot_T A B = map (\<lambda>a. map (\<lambda>b. dot a b) B) A"

text \<open>\<^verbatim>\<open>u.dot(B)\<close> for a 1-d array \<open>u\<close>.\<close>

definition vecmat :: "vec \<Rightarrow> matrix \<Rightarrow> vec" where
  "vecmat u B = map (\<lambda>j. dot u (column j B)) [0..<ncols B]"

text \<open>\<^verbatim>\<open>M.T\<close> for an array with \<open>n\<close> columns.\<close>

definition transpose_n :: "nat \<Rightarrow> 'a list list \<Rightarrow> 'a list list" where
  "transpose_n n M = map (\<lambda>j. column j M) [0..<n]"

definition np_diag :: "matrix \<Rightarrow> vec" where
  "np_diag M = map (\<lambda>i. M ! i ! i) [0..<min (length M) (ncols M)]"

definition ones :: "nat \<Rightarrow> nat \<Rightarrow> matrix" where
  "ones n m = replicate n (replicate m (Fin 1))"

definition expand_dims0 :: "vec \<Rightarrow> matrix" where
  "expand_dims0 v = [v]"

definition expand_dims1 :: "vec \<Rightarrow> matrix" where
  "expand_dims1 v = map (\<lambda>x. [x]) v"

definition madd :: "matrix \<Rightarrow> matrix \<Rightarrow> matrix" where
  "madd A B = map2 (map2 np_add) A B"

definition msub :: "matrix \<Rightarrow> matrix \<Rightarrow> matrix" where
  "msub A B = map2 (map2 np_sub) A B"

definition smul :: "npfloat \<Rightarrow> matrix \<Rightarrow> matrix" where
  "smul c A = map (map (np_mul c)) A"

text \<open>
  Python's slice \<^verbatim>\<open>xs[:k]\<close>: a negative \<open>k\<close> counts from the end, and the bounds
  are clipped to the list.
\<close>

definition py_take :: "int \<Rightarrow> 'a list \<Rightarrow> 'a list" where
  "py_take k xs = (if 0 \<le> k then take (nat k) xs else take (length xs - nat (- k)) xs)"

text \<open>\<^verbatim>\<open>xs[i:j]\<close> for \<open>0 \<le> i \<le> j\<close>, and the assignment \<^verbatim>\<open>xs[i:j] = vs\<close> to it.\<close>

definition slice :: "'a list \<Rightarrow> nat \<Rightarrow> nat \<Rightarrow> 'a list" where
  "slice xs i j = take (j - i) (drop i xs)"

definition slice_assign :: "'a list \<Rightarrow> nat \<Rightarrow> nat \<Rightarrow> 'a list \<Rightarrow> 'a list" where
  "slice_assign xs i j vs = take i xs @ vs @ drop j xs"

text \<open>\<^verbatim>\<open>labels[mask] = v\<close>.\<close>

definition mask_assign :: "'a list \<Rightarrow> bool list \<Rightarrow> 'a \<Rightarrow> 'a list" where
  "mask_assign labels msk v = map2 (\<lambda>l m. if m then v else l) labels msk"

text \<open>\<^verbatim>\<open>int(x)\<close> of a float: truncation towards zero.\<close>

definition py_int :: "real \<Rightarrow> int" where
  "py_int x = (if 0 \<le> x then \<lfloor>x\<rfloor> else \<lceil>x\<rceil>)"

text \<open>Broadcast products: a 1-d array against the rows, a column against the columns.\<close>

definition mul_rows :: "vec \<Rightarrow> matrix \<Rightarrow> matrix" where
  "mul_rows v M = map (\<lambda>row. map2 np_mul v row) M"

definition mul_rows_r :: "matrix \<Rightarrow> vec \<Rightarrow> matrix" where
  "mul_rows_r M v = map (\<lambda>row. map2 np_mul row v) M"

definition mul_col :: "matrix \<Rightarrow> vec \<Rightarrow> matrix" where
  "mul_col M c = map2 (\<lambda>row x. map (\<lambda>y. np_mul y x) row) M c"

subsection \<open>Exceptions, configuration and the detector object\<close>

datatype pyerr =
    TypeError
  | ValueError
  | AttributeError string
  | ZeroDivisionError
  | IndexError
  | RecursionError
  | LinAlgError

text \<open>The argument \<^verbatim>\<open>q\<close> is an integer or one of the strings of the docstring.\<close>

datatype qparam = QStr string | QInt int

text \<open>
  The attributes of a \<^verbatim>\<open>kPCA\<close> object. Those that \<^verbatim>\<open>__init__\<close> does not set are
  \<open>None\<close> until a method assigns them; reading one that is \<open>None\<close> is an
  \<^verbatim>\<open>AttributeError\<close>. (A trailing underscore is not a name here: \<^verbatim>\<open>threshold_\<close> is
  \<open>threshold_'\<close>.)
\<close>

record kPCA =
  sigma :: real
  gamma :: real
  order :: int
  q :: qparam
  sample_pct :: real
  batch_size :: int
  contamination :: real
  verbose :: bool
  d_features :: "nat option"
  n_sub :: "int option"
  model_alphas :: "matrix option"
  model_X_S :: "matrix option"
  model_K_mat :: "matrix option"
  decision_scores_' :: "vec option"
  threshold_' :: "npfloat option"
  labels_' :: "vec option"

text \<open>The library routines the class calls.\<close>

record numlib =
  eigh :: "matrix \<Rightarrow> pyerr + (vec \<times> matrix)"
  permutation :: "int \<Rightarrow> nat list"
  quantile :: "vec \<Rightarrow> real \<Rightarrow> pyerr + npfloat"

text \<open>
  \<^verbatim>\<open>__init__\<close>: \<^verbatim>\<open>1/2/sigma/sigma\<close> is a division of Python floats, which raises for
  \<open>sigma = 0\<close>. The argument \<^verbatim>\<open>shrinking\<close> is not used and is left out.
\<close>

definition init :: "int \<Rightarrow> qparam \<Rightarrow> real \<Rightarrow> real \<Rightarrow> int \<Rightarrow> real \<Rightarrow> bool \<Rightarrow> pyerr + kPCA" where
  "init order0 q0 sigma0 sample_pct0 batch_size0 contamination0 verbose0 =
     (if sigma0 = 0 then Inl ZeroDivisionError
      else Inr \<lparr> sigma = sigma0, gamma = 1 / 2 / sigma0 / sigma0, order = order0, q = q0,
                 sample_pct = sample_pct0, batch_size = batch_size0,
                 contamination = contamination0, verbose = verbose0,
                 d_features = None, n_sub = None, model_alphas = None, model_X_S = None,
                 model_K_mat = None, decision_scores_' = None, threshold_' = None,
                 labels_' = None \<rparr>)"

subsection \<open>\<^verbatim>\<open>gramMatrix\<close>\<close>

text \<open>
  The squared distances come from \<open>|s|\<^sup>2 + |x|\<^sup>2 - 2 s\<cdot>x\<close>; the only operation that
  can raise is \<^verbatim>\<open>X_S.dot(X.T)\<close>, when the column counts differ. The result has
  one row for each row of \<open>X_S\<close> and one column for each row of \<open>X\<close>.
\<close>

definition gramMatrix :: "kPCA \<Rightarrow> matrix \<Rightarrow> matrix \<Rightarrow> pyerr + matrix" where
  "gramMatrix self X X_S =
     (if X \<noteq> [] \<and> X_S \<noteq> [] \<and> ncols X_S \<noteq> ncols X then Inl ValueError
      else
        let a = matmul (expand_dims1 (np_diag (dot_T X_S X_S))) (ones 1 (length X));
            b = matmul (ones (length X_S) 1) (expand_dims0 (np_diag (dot_T X X)));
            sqrd_dists = msub (madd a b) (smul (Fin 2) (dot_T X_S X));
            params = gamma self;
            K = map (map np_exp) (smul (Fin (- params)) sqrd_dists)
        in Inr K)"

subsection \<open>\<^verbatim>\<open>subsample_data\<close>\<close>

text \<open>
  The argument \<^verbatim>\<open>sample_pct\<close> defaults to \<^verbatim>\<open>None\<close>, and the product with \<^verbatim>\<open>None\<close> is a
  \<^verbatim>\<open>TypeError\<close>. The indices are \<^verbatim>\<open>np.random.permutation(n_sub)\<close>; an index past the
  last row is an \<^verbatim>\<open>IndexError\<close>.
\<close>

definition subsample_data :: "numlib \<Rightarrow> kPCA \<Rightarrow> matrix \<Rightarrow> real option \<Rightarrow> pyerr + matrix" where
  "subsample_data lib self X sample_pct0 =
     (case sample_pct0 of
        None \<Rightarrow> Inl TypeError
      | Some p \<Rightarrow>
          let n_sub' = py_int (p * real (length X));
              sample_idx = permutation lib n_sub'
          in if list_all (\<lambda>i. i < length X) sample_idx
             then Inr (map (\<lambda>i. X ! i) sample_idx)
             else Inl IndexError)"

subsection \<open>\<^verbatim>\<open>eigenDecomp_gramMatrix\<close>\<close>

text \<open>
  \<^verbatim>\<open>eigh\<close> returns the eigenvalues in ascending order and the eigenvectors as
  columns; both are reversed. The slices \<^verbatim>\<open>v[:,:numev]\<close> and \<^verbatim>\<open>w[:numev]\<close> raise a
  \<^verbatim>\<open>TypeError\<close> when \<^verbatim>\<open>numev\<close> is a string. Nothing looks at the sign of an
  eigenvalue: \<^verbatim>\<open>1/np.sqrt(lambdas)\<close> is computed by numpy.
\<close>

definition eigenDecomp_gramMatrix :: "numlib \<Rightarrow> kPCA \<Rightarrow> matrix \<Rightarrow> pyerr + matrix" where
  "eigenDecomp_gramMatrix lib self K_centered =
     (let numev = q self in
      case eigh lib K_centered of
        Inl e \<Rightarrow> Inl e
      | Inr (w0, v0) \<Rightarrow>
          let w = rev w0;
              v = map rev v0
          in (case numev of
                QStr _ \<Rightarrow> Inl TypeError
              | QInt k \<Rightarrow>
                  let alphas = map (py_take k) v;
                      lambdas = py_take k w;
                      alphs = mul_rows_r alphas (map (\<lambda>l. np_div (Fin 1) (np_sqrt l)) lambdas)
                  in Inr alphs))"

subsection \<open>\<^verbatim>\<open>calc_reconstructionErrors\<close>\<close>

text \<open>The two lines under \<^verbatim>\<open>#helper calcs\<close>, which \<^verbatim>\<open>fit\<close> repeats.\<close>

definition Krow_of :: "nat \<Rightarrow> matrix \<Rightarrow> vec" where
  "Krow_of n_sub' K_mat =
     map (\<lambda>c. np_div c (Fin (real n_sub'))) (sum_axis0 (ncols K_mat) K_mat)"

definition Ksum_of :: "nat \<Rightarrow> vec \<Rightarrow> npfloat" where
  "Ksum_of n_sub' Krow = np_div (np_sum Krow) (Fin (real n_sub'))"

text \<open>
  \<^verbatim>\<open>range(0, stop, step)\<close>: a zero step raises, a negative one gives the empty range.
\<close>

definition py_range :: "nat \<Rightarrow> int \<Rightarrow> pyerr + nat list" where
  "py_range stop step =
     (if step = 0 then Inl ValueError
      else if step < 0 then Inr []
      else Inr (map (\<lambda>k. k * nat step) [0..<(stop + nat step - 1) div nat step]))"

text \<open>
  The body of the loop for one block: \<open>k_L\<close>, \<open>f_L\<close> and \<open>errs_block\<close>. Besides
  \<^verbatim>\<open>gramMatrix\<close>, the product \<^verbatim>\<open>np.dot(Krow, alphs)\<close> can raise.
\<close>

definition errs_block :: "kPCA \<Rightarrow> matrix \<Rightarrow> matrix \<Rightarrow> vec \<Rightarrow> npfloat \<Rightarrow> vec \<Rightarrow> matrix \<Rightarrow> pyerr + vec" where
  "errs_block self X_block X_S Krow Ksum sumalphs alphs =
     (let n_block = length X_block;
          n_sub' = length X_S;
          numev = ncols alphs
      in case gramMatrix self X_block X_S of
           Inl e \<Rightarrow> Inl e
         | Inr k_L \<Rightarrow>
             if length Krow \<noteq> length alphs then Inl ValueError
             else
               let colsum = sum_axis0 n_block k_L;
                   f_L = msub
                           (msub (matmul (transpose_n n_block k_L) alphs)
                                 (mul_col (mul_rows sumalphs (ones n_block numev))
                                    (map (\<lambda>c. np_sub (np_div c (Fin (real n_sub'))) Ksum) colsum)))
                           (mul_rows_r (ones n_block numev) (vecmat Krow alphs));
                   errs = map2 np_sub
                            (map (\<lambda>c. np_add (np_sub (Fin 1)
                                        (np_div (np_mul (Fin 2) c) (Fin (real n_sub')))) Ksum) colsum)
                            (np_diag (dot_T f_L f_L))
               in Inr errs)"

text \<open>
  The loop over the block starts: each block is cut out of \<open>X\<close>, and its errors
  are written into the slice of \<open>reconstruction_errs\<close> at the same place.
\<close>

fun recon_loop :: "(matrix \<Rightarrow> pyerr + vec) \<Rightarrow> matrix \<Rightarrow> nat \<Rightarrow> nat list \<Rightarrow> vec \<Rightarrow> pyerr + vec" where
  "recon_loop body X bs [] reconstruction_errs = Inr reconstruction_errs"
| "recon_loop body X bs (block_i # rest) reconstruction_errs =
     (case body (slice X block_i (block_i + bs)) of
        Inl e \<Rightarrow> Inl e
      | Inr eb \<Rightarrow>
          recon_loop body X bs rest (slice_assign reconstruction_errs block_i (block_i + bs) eb))"

definition calc_reconstructionErrors :: "kPCA \<Rightarrow> matrix \<Rightarrow> matrix \<Rightarrow> matrix \<Rightarrow> matrix \<Rightarrow> pyerr + vec" where
  "calc_reconstructionErrors self X X_S K_mat alphs =
     (let n_samples = length X;
          n_sub' = length X_S;
          Krow = Krow_of n_sub' K_mat;
          Ksum = Ksum_of n_sub' Krow
      in if length alphs \<noteq> n_sub' then Inl ValueError
         else
           let sumalphs = vecmat (replicate n_sub' (Fin 1)) alphs;
               reconstruction_errs = replicate n_samples (Fin 0)
           in case py_range n_samples (batch_size self) of
                Inl e \<Rightarrow> Inl e
              | Inr blocks \<Rightarrow>
                  recon_loop (\<lambda>X_block. errs_block self X_block X_S Krow Ksum sumalphs alphs)
                    X (nat (batch_size self)) blocks reconstruction_errs)"

subsection \<open>\<^verbatim>\<open>threshold\<close>\<close>

text \<open>The method returns the labels and assigns \<^verbatim>\<open>self.threshold_\<close>.\<close>

definition threshold :: "numlib \<Rightarrow> kPCA \<Rightarrow> vec \<Rightarrow> real \<Rightarrow> (pyerr + vec) \<times> kPCA" where
  "threshold lib self scores contamination0 =
     (case quantile lib scores (1 - contamination0) of
        Inl e \<Rightarrow> (Inl e, self)
      | Inr thr \<Rightarrow>
          let labels = replicate (length scores) (Fin 1);
              labels = mask_assign labels (map (\<lambda>x. np_lt x thr) scores) (Fin 0)
          in (Inr labels, self\<lparr>threshold_' := Some thr\<rparr>))"

subsection \<open>\<^verbatim>\<open>fit\<close>\<close>

text \<open>\<^verbatim>\<open>(K_mat + K_mat.T) / 2\<close>.\<close>

definition symmetrize :: "matrix \<Rightarrow> matrix" where
  "symmetrize K_mat =
     map (map (\<lambda>x. np_div x (Fin 2))) (madd K_mat (transpose_n (ncols K_mat) K_mat))"

text \<open>The helper lines and the double loop that fills \<^verbatim>\<open>K_centered\<close>.\<close>

definition center_gram :: "nat \<Rightarrow> matrix \<Rightarrow> matrix" where
  "center_gram n_sub' K_mat =
     (let Krow = Krow_of n_sub' K_mat;
          Ksum = Ksum_of n_sub' Krow
      in map (\<lambda>i. map (\<lambda>j. np_add (np_sub (np_sub (K_mat ! i ! j) (Krow ! i)) (Krow ! j)) Ksum)
                    [0..<ncols K_mat])
           [0..<length K_mat])"

text \<open>
  \<^verbatim>\<open>X.shape[1]\<close>: read off the first row, and for an array without rows, of shape
  \<open>(0, d0)\<close>, the count \<open>d0\<close> that is given with it.
\<close>

definition shape1 :: "nat \<Rightarrow> 'a list list \<Rightarrow> nat" where
  "shape1 d0 X = (if X = [] then d0 else ncols X)"

text \<open>
  The first \<^verbatim>\<open>if\<close> of \<^verbatim>\<open>fit\<close>: \<^verbatim>\<open>max(self.q, self.d_features)\<close> raises for a string,
  and the division by \<^verbatim>\<open>X.shape[0]\<close> is one of Python integers, which raises for an
  array without rows.
\<close>

definition fit_adjust :: "kPCA \<Rightarrow> matrix \<Rightarrow> nat \<Rightarrow> (pyerr + unit) \<times> kPCA" where
  "fit_adjust self X d0 =
     (let d_features' = shape1 d0 X in
      if py_int (sample_pct self * real (length X)) < int d_features'
      then (case q self of
              QStr _ \<Rightarrow> (Inl TypeError, self)
            | QInt k \<Rightarrow>
                let self = self\<lparr>n_sub := Some (max k (int d_features'))\<rparr>
                in if length X = 0 then (Inl ZeroDivisionError, self)
                   else (Inr (), self\<lparr>sample_pct :=
                           real_of_int (max k (int d_features')) / real (length X) + 1 / 1000\<rparr>))
      else (Inr (), self))"

text \<open>
  \<^verbatim>\<open>fit(X)\<close>; the last argument is the column count of \<open>X\<close> when \<open>X\<close> has no rows.
\<close>

definition fit :: "numlib \<Rightarrow> kPCA \<Rightarrow> matrix \<Rightarrow> nat \<Rightarrow> (pyerr + unit) \<times> kPCA" where
  "fit lib self X d0 =
     (case fit_adjust (self\<lparr>d_features := Some (shape1 d0 X)\<rparr>) X d0 of
        (Inl e, self) \<Rightarrow> (Inl e, self)
      | (Inr _, self) \<Rightarrow>
          (case (if sample_pct self < 1 then subsample_data lib self X None else Inr X) of
             Inl e \<Rightarrow> (Inl e, self)
           | Inr X_S \<Rightarrow>
               let n_sub' = length X_S in
               (case gramMatrix self X_S X_S of
                  Inl e \<Rightarrow> (Inl e, self)
                | Inr K0 \<Rightarrow>
                    let K_mat = symmetrize K0;
                        K_centered = center_gram n_sub' K_mat
                    in (case eigenDecomp_gramMatrix lib self K_centered of
                          Inl e \<Rightarrow> (Inl e, self)
                        | Inr alphs \<Rightarrow>
                            let self = self\<lparr>model_alphas := Some alphs, model_X_S := Some X_S,
                                             model_K_mat := Some K_mat\<rparr>
                            in (case calc_reconstructionErrors self X X_S K_mat alphs of
                                  Inl e \<Rightarrow> (Inl e, self)
                                | Inr reconstruction_errs \<Rightarrow>
                                    let self = self\<lparr>decision_scores_' := Some reconstruction_errs\<rparr>
                                    in (case threshold lib self reconstruction_errs (contamination self) of
                                          (Inl e, self) \<Rightarrow> (Inl e, self)
                                        | (Inr labels, self) \<Rightarrow>
                                            (Inr (), self\<lparr>labels_' := Some labels\<rparr>)))))))"

subsection \<open>\<^verbatim>\<open>decision_function\<close> and \<^verbatim>\<open>predict\<close>\<close>

definition decision_function :: "kPCA \<Rightarrow> ndarray \<Rightarrow> (pyerr + vec) \<times> kPCA" where
  "decision_function self X_test0 =
     (let X_test = (case X_test0 of Array1 v \<Rightarrow> expand_dims0 v | Array2 M \<Rightarrow> M) in
      case model_X_S self of
        None \<Rightarrow> (Inl (AttributeError ''model_X_S''), self)
      | Some X_S \<Rightarrow>
          (case model_K_mat self of
             None \<Rightarrow> (Inl (AttributeError ''model_K_mat''), self)
           | Some K_mat \<Rightarrow>
               (case model_alphas self of
                  None \<Rightarrow> (Inl (AttributeError ''model_alphas''), self)
                | Some alphs \<Rightarrow>
                    (calc_reconstructionErrors self X_test X_S K_mat alphs, self))))"

text \<open>
  \<^verbatim>\<open>predict\<close> gets its scores from \<^verbatim>\<open>self.predict(X_test)\<close>, a call of itself. The
  first argument is the number of frames the interpreter still allows; with none
  left the call raises \<^verbatim>\<open>RecursionError\<close>.
\<close>

fun predict :: "nat \<Rightarrow> kPCA \<Rightarrow> ndarray \<Rightarrow> npfloat option \<Rightarrow> (pyerr + vec) \<times> kPCA" where
  "predict 0 self X_test0 threshold0 = (Inl RecursionError, self)"
| "predict (Suc depth) self X_test0 threshold0 =
     (let X_test = (case X_test0 of Array1 v \<Rightarrow> Array2 (expand_dims0 v) | Array2 M \<Rightarrow> Array2 M) in
      case (case threshold0 of
              None \<Rightarrow> (case threshold_' self of
                          None \<Rightarrow> Inl (AttributeError ''threshold_'')
                        | Some t \<Rightarrow> Inr t)
            | Some t \<Rightarrow> Inr t) of
        Inl e \<Rightarrow> (Inl e, self)
      | Inr thr \<Rightarrow>
          (case predict depth self X_test None of
             (Inl e, self) \<Rightarrow> (Inl e, self)
           | (Inr scores, self) \<Rightarrow>
               let labels = replicate (length scores) (Fin 1);
                   labels = mask_assign labels (map (\<lambda>x. np_lt x thr) scores) (Fin 0)
               in (Inr labels, self)))"

section \<open>Notions used in the statements\<close>

text \<open>The object that \<^verbatim>\<open>kPCA()\<close> builds from the default arguments.\<close>

definition default_detector :: kPCA where
  "default_detector =
     \<lparr> sigma = 1, gamma = 1 / 2, order = 3, q = QStr ''same'', sample_pct = 1,
       batch_size = 500, contamination = 1 / 10, verbose = False,
       d_features = None, n_sub = None, model_alphas = None, model_X_S = None,
       model_K_mat = None, decision_scores_' = None, threshold_' = None,
       labels_' = None \<rparr>"

text \<open>Arrays of finite values, and the squared Euclidean distance of two rows.\<close>

definition fm :: "real list list \<Rightarrow> matrix" where
  "fm M = map (map Fin) M"

definition rdot :: "real list \<Rightarrow> real list \<Rightarrow> real" where
  "rdot u v = sum_list (map2 (*) u v)"

definition sqdist :: "real list \<Rightarrow> real list \<Rightarrow> real" where
  "sqdist u v = sum_list (map2 (\<lambda>a b. (a - b)\<^sup>2) u v)"

text \<open>
  One entry of the array that \<^verbatim>\<open>gramMatrix\<close> returns, as the array expressions
  compute it from a row \<open>s\<close> of \<open>X_S\<close> and a row \<open>x\<close> of \<open>X\<close>.
\<close>

definition kernel_val :: "real \<Rightarrow> vec \<Rightarrow> vec \<Rightarrow> npfloat" where
  "kernel_val g s x =
     np_exp (np_mul (Fin (- g))
       (np_sub (np_add (np_add (np_mul (dot s s) (Fin 1)) (Fin 0))
                       (np_add (np_mul (Fin 1) (dot x x)) (Fin 0)))
               (np_mul (Fin 2) (dot s x))))"

text \<open>
  The reconstruction error of one query row \<open>x\<close>, as the expressions of the block
  loop compute it for the position of \<open>x\<close> in its block.
\<close>

definition row_err :: "real \<Rightarrow> matrix \<Rightarrow> vec \<Rightarrow> npfloat \<Rightarrow> vec \<Rightarrow> matrix \<Rightarrow> vec \<Rightarrow> npfloat" where
  "row_err g X_S Krow Ksum sumalphs alphs x =
     (let k = map (\<lambda>s. kernel_val g s x) X_S;
          c = np_sum k;
          numev = ncols alphs;
          f = map2 np_sub
                (map2 np_sub (vecmat k alphs)
                   (map (\<lambda>y. np_mul y (np_sub (np_div c (Fin (real (length X_S)))) Ksum))
                      (map2 np_mul sumalphs (replicate numev (Fin 1)))))
                (map2 np_mul (replicate numev (Fin 1)) (vecmat Krow alphs))
      in np_sub (np_add (np_sub (Fin 1) (np_div (np_mul (Fin 2) c) (Fin (real (length X_S))))) Ksum)
           (dot f f))"

text \<open>
  An instance of the library for the examples. Its quantile interpolates linearly
  between the two nearest order statistics, numpy's default method, when all
  values are finite, and is \<open>nan\<close> otherwise; its \<^verbatim>\<open>eigh\<close> returns the eigenpairs of
  the doubly centred unit matrix of size 2, eigenvalues ascending and eigenvectors
  as columns; its permutation is the reversed range.
\<close>

definition quantile_linear :: "real list \<Rightarrow> real \<Rightarrow> real" where
  "quantile_linear rs p =
     (let s = sort rs;
          h = p * real (length rs - 1);
          lo = nat \<lfloor>h\<rfloor>;
          hi = min (lo + 1) (length rs - 1)
      in s ! lo + (h - real lo) * (s ! hi - s ! lo))"

fun fin_val :: "npfloat \<Rightarrow> real" where
  "fin_val (Fin a) = a"
| "fin_val _ = 0"

definition example_quantile :: "vec \<Rightarrow> real \<Rightarrow> pyerr + npfloat" where
  "example_quantile v p =
     (if p < 0 \<or> 1 < p then Inl ValueError
      else if v \<noteq> [] \<and> list_all is_finite v then Inr (Fin (quantile_linear (map fin_val v) p))
      else Inr NaN)"

definition example_lib :: numlib where
  "example_lib =
     \<lparr> eigh = (\<lambda>K. Inr ([Fin 0, Fin 1],
                         [[Fin (1 / sqrt 2), Fin (- 1 / sqrt 2)],
                          [Fin (1 / sqrt 2), Fin (1 / sqrt 2)]])),
       permutation = (\<lambda>n. rev [0..<nat n]),
       quantile = example_quantile \<rparr>"

section \<open>Properties\<close>

subsection \<open>Lists and arrays\<close>

lemma map_upt_nth: "map (\<lambda>j. f (xs ! j)) [0..<length xs] = map f xs"
  by (rule nth_equalityI) simp_all

lemma map2_map_map: "map2 h (map F B) (map G B) = map (\<lambda>x. h (F x) (G x)) B"
  by (induction B) simp_all

lemma map2_replicate_l: "map2 h (replicate (length B) r) (map G B) = map (\<lambda>x. h r (G x)) B"
  by (induction B) simp_all

lemma map2_replicate_r: "map2 h (map F B) (replicate (length B) r) = map (\<lambda>x. h (F x) r) B"
  by (induction B) simp_all

lemma ncols_map_const: "ncols (map (\<lambda>a. map (F a) B) A) = (if A = [] then 0 else length B)"
  by (cases A) (simp_all add: ncols_def)

lemma ncols_dot_T: "A \<noteq> [] \<Longrightarrow> ncols (dot_T A B) = length B"
  by (cases A) (simp_all add: ncols_def dot_T_def)

lemma np_diag_dot_T: "np_diag (dot_T X X) = map (\<lambda>x. dot x x) X"
proof (cases "X = []")
  case True
  then show ?thesis by (simp add: np_diag_def dot_T_def)
next
  case False
  then have "np_diag (dot_T X X) = map (\<lambda>i. dot_T X X ! i ! i) [0..<length X]"
    by (simp add: np_diag_def ncols_dot_T) (simp add: dot_T_def)
  also have "\<dots> = map (\<lambda>i. dot (X ! i) (X ! i)) [0..<length X]"
    by (rule map_cong) (simp_all add: dot_T_def)
  also have "\<dots> = map (\<lambda>x. dot x x) X"
    by (rule map_upt_nth)
  finally show ?thesis .
qed

lemma matmul_col_ones:
  "matmul (expand_dims1 v) (ones 1 n) = map (\<lambda>a. replicate n (np_add (np_mul a (Fin 1)) (Fin 0))) v"
  by (auto simp: matmul_def expand_dims1_def ones_def ncols_def column_def dot_def
           intro!: nth_equalityI)

lemma matmul_ones_row:
  "matmul (ones m 1) (expand_dims0 v) = replicate m (map (\<lambda>b. np_add (np_mul (Fin 1) b) (Fin 0)) v)"
  by (auto simp: matmul_def expand_dims0_def ones_def ncols_def column_def dot_def map_replicate
           intro!: nth_equalityI)

lemma column_rows:
  "j < length B \<Longrightarrow> column j (map (\<lambda>s. map (F s) B) A) = map (\<lambda>s. F s (B ! j)) A"
  by (simp add: column_def)

lemma transpose_n_rows:
  "transpose_n (length B) (map (\<lambda>s. map (F s) B) A) = map (\<lambda>x. map (\<lambda>s. F s x) A) B"
proof -
  have "transpose_n (length B) (map (\<lambda>s. map (F s) B) A)
        = map (\<lambda>j. map (\<lambda>s. F s (B ! j)) A) [0..<length B]"
    unfolding transpose_n_def by (rule map_cong) (simp_all add: column_rows)
  also have "\<dots> = map (\<lambda>x. map (\<lambda>s. F s x) A) B"
    by (rule map_upt_nth)
  finally show ?thesis .
qed

lemma sum_axis0_rows:
  "sum_axis0 (length B) (map (\<lambda>s. map (F s) B) A) = map (\<lambda>x. np_sum (map (\<lambda>s. F s x) A)) B"
proof -
  have "sum_axis0 (length B) (map (\<lambda>s. map (F s) B) A)
        = map (\<lambda>j. np_sum (map (\<lambda>s. F s (B ! j)) A)) [0..<length B]"
    unfolding sum_axis0_def by (rule map_cong) (simp_all add: column_rows)
  also have "\<dots> = map (\<lambda>x. np_sum (map (\<lambda>s. F s x) A)) B"
    by (rule map_upt_nth)
  finally show ?thesis .
qed

lemma matmul_map: "matmul (map F B) M = map (\<lambda>x. vecmat (F x) M) B"
  by (simp add: matmul_def vecmat_def)

lemma mask_assign_map:
  "mask_assign (replicate (length xs) a) (map P xs) b = map (\<lambda>x. if P x then b else a) xs"
  by (induction xs) (simp_all add: mask_assign_def)

lemma np_sum_Fin: "np_sum (map Fin xs) = Fin (sum_list xs)"
  by (induction xs) simp_all

lemma dot_Fin: "dot (map Fin u) (map Fin v) = Fin (rdot u v)"
proof -
  have "map2 np_mul (map Fin u) (map Fin v) = map Fin (map2 (*) u v)"
    by (simp add: zip_map_map split_def)
  then show ?thesis by (simp only: dot_def rdot_def np_sum_Fin)
qed

lemma sum_list_upt: "sum_list (map f [0..<n]) = (\<Sum>j<n. (f j :: real))"
  by (simp add: interv_sum_list_conv_sum_set_nat atLeast0LessThan)

lemma column_fm:
  assumes "\<forall>r\<in>set K. j < length r"
  shows "column j (fm K) = map Fin (column j K)"
  using assms by (simp add: column_def fm_def)

lemma sum_list_column:
  "sum_list (column j K) = (\<Sum>i<length K. (K ! i ! j :: real))"
proof -
  have "column j K = map (\<lambda>i. K ! i ! j) [0..<length K]"
    unfolding column_def by (rule nth_equalityI) simp_all
  then show ?thesis by (simp only: sum_list_upt)
qed

subsection \<open>The kernel function\<close>

text \<open>
  Unless the column counts differ, \<^verbatim>\<open>gramMatrix(X, X_S)\<close> returns one row for each
  row of \<open>X_S\<close>, holding the kernel values against the rows of \<open>X\<close>.
\<close>

lemma gramMatrix_rows:
  assumes "\<not> (X \<noteq> [] \<and> X_S \<noteq> [] \<and> ncols X_S \<noteq> ncols X)"
  shows "gramMatrix self X X_S = Inr (map (\<lambda>s. map (kernel_val (gamma self) s) X) X_S)"
proof -
  have a: "matmul (expand_dims1 (np_diag (dot_T X_S X_S))) (ones 1 (length X))
           = map (\<lambda>s. map (\<lambda>x. np_add (np_mul (dot s s) (Fin 1)) (Fin 0)) X) X_S"
    by (simp only: np_diag_dot_T matmul_col_ones) (simp add: map_replicate_const)
  have b: "matmul (ones (length X_S) 1) (expand_dims0 (np_diag (dot_T X X)))
           = map (\<lambda>s. map (\<lambda>x. np_add (np_mul (Fin 1) (dot x x)) (Fin 0)) X) X_S"
    by (simp only: np_diag_dot_T matmul_ones_row) (simp add: map_replicate_const comp_def)
  have c: "dot_T X_S X = map (\<lambda>s. map (\<lambda>x. dot s x) X) X_S"
    by (simp add: dot_T_def)
  show ?thesis
    using assms unfolding gramMatrix_def Let_def a b c
    by (simp add: madd_def msub_def smul_def map2_map_map kernel_val_def comp_def)
qed

lemma sqdist_expand:
  "length u = length v \<Longrightarrow> rdot u u + rdot v v - 2 * rdot u v = sqdist u v"
  by (induction u v rule: list_induct2)
     (simp_all add: rdot_def sqdist_def power2_diff power2_eq_square algebra_simps)

lemma kernel_val_Fin:
  assumes "length s = length x"
  shows "kernel_val g (map Fin s) (map Fin x) = Fin (exp (- g * sqdist s x))"
proof -
  have "rdot s s + rdot x x - 2 * rdot s x = sqdist s x"
    using assms by (rule sqdist_expand)
  then show ?thesis
    by (simp add: kernel_val_def dot_Fin np_sub_def)
qed

lemma gramMatrix_Fin:
  assumes A: "\<forall>r\<in>set A. length r = d" and B: "\<forall>r\<in>set B. length r = d"
  shows "gramMatrix self (fm A) (fm B)
         = Inr (map (\<lambda>b. map (\<lambda>a. Fin (exp (- gamma self * sqdist b a))) A) B)"
proof -
  have nc: "ncols (fm M) = d" if "M \<noteq> []" "\<forall>r\<in>set M. length r = d" for M
    using that by (cases M) (simp_all add: ncols_def fm_def)
  have guard: "\<not> (fm A \<noteq> [] \<and> fm B \<noteq> [] \<and> ncols (fm B) \<noteq> ncols (fm A))"
    using nc [of A] nc [of B] A B by (auto simp: fm_def)
  have "map (\<lambda>s. map (kernel_val (gamma self) s) (fm A)) (fm B)
        = map (\<lambda>b. map (\<lambda>a. Fin (exp (- gamma self * sqdist b a))) A) B"
    using A B by (simp add: fm_def comp_def kernel_val_Fin)
  with gramMatrix_rows [OF guard, of self] show ?thesis by simp
qed

text \<open>
  Claim C6 says that for point sets \<open>A\<close> (\<open>m\<^sub>1\<close> rows) and \<open>B\<close> (\<open>m\<^sub>2\<close> rows) the kernel
  function returns an \<open>m\<^sub>1 \<times> m\<^sub>2\<close> array whose rows are indexed by the first
  argument. For one point \<open>A\<close> and two points \<open>B\<close> the array returned has two rows of
  one entry: the rows belong to the second argument.
\<close>

theorem gramMatrix_shape_counterexample:
  "gramMatrix default_detector [[Fin 0]] [[Fin 0], [Fin 1]] = Inr [[Fin 1], [Fin (exp (- (1 / 2)))]]"
  by (simp add: gramMatrix_def default_detector_def ncols_def matmul_def dot_T_def dot_def
        np_diag_def ones_def expand_dims0_def expand_dims1_def column_def madd_def msub_def
        smul_def np_sub_def)

text \<open>
  Claim C6, as amended: for finite point sets \<open>A\<close> (\<open>m\<^sub>1\<close> rows) and \<open>B\<close> (\<open>m\<^sub>2\<close> rows)
  of equal column dimension, \<^verbatim>\<open>gramMatrix(A, B)\<close> returns an array of shape \<open>m\<^sub>2 \<times> m\<^sub>1\<close>
  whose entry \<open>K[i,j]\<close> is the RBF value \<open>exp(-\<gamma> |B[i] - A[j]|\<^sup>2)\<close> with
  \<open>\<gamma> = 1/(2\<sigma>\<^sup>2)\<close>: the second argument indexes the rows of the result and the
  first its columns.
\<close>

theorem gramMatrix_entries:
  assumes A: "\<forall>r\<in>set A. length r = d" and B: "\<forall>r\<in>set B. length r = d"
  shows "\<exists>K. gramMatrix self (fm A) (fm B) = Inr K \<and> length K = length B \<and>
           (\<forall>i<length B. length (K ! i) = length A \<and>
              (\<forall>j<length A. K ! i ! j = Fin (exp (- gamma self * sqdist (B ! i) (A ! j)))))"
  by (simp add: gramMatrix_Fin [OF A B])

theorem gramMatrix_entries_witness:
  "\<exists>K. gramMatrix default_detector (fm [[0]]) (fm [[0], [1]]) = Inr K \<and> length K = 2 \<and>
        length (K ! 1) = 1 \<and>
        K ! 1 ! 0 = Fin (exp (- gamma default_detector * sqdist [1] [0]))"
proof -
  have a: "\<forall>r\<in>set [[0::real]]. length r = 1" by simp
  have b: "\<forall>r\<in>set [[0], [1::real]]. length r = 1" by simp
  from gramMatrix_entries [OF a b, of default_detector]
  obtain K where "gramMatrix default_detector (fm [[0]]) (fm [[0], [1]]) = Inr K"
    and "length K = length [[0], [1::real]]"
    and "\<forall>i<length [[0], [1::real]]. length (K ! i) = length [[0::real]] \<and>
           (\<forall>j<length [[0::real]].
              K ! i ! j = Fin (exp (- gamma default_detector * sqdist ([[0], [1]] ! i) ([[0]] ! j))))"
    by blast
  then show ?thesis by (intro exI [of _ K]) simp
qed

subsection \<open>The model does not depend on the block size\<close>

lemma errs_block_rows:
  assumes "\<not> (B \<noteq> [] \<and> X_S \<noteq> [] \<and> ncols X_S \<noteq> ncols B)"
    and "length Krow = length alphs"
  shows "errs_block self B X_S Krow Ksum sumalphs alphs
         = Inr (map (row_err (gamma self) X_S Krow Ksum sumalphs alphs) B)"
proof -
  let ?kv = "kernel_val (gamma self)"
  let ?k_L = "map (\<lambda>s. map (?kv s) B) X_S"
  let ?n = "ncols alphs"
  have ones1: "mul_rows sumalphs (ones (length B) ?n)
               = replicate (length B) (map2 np_mul sumalphs (replicate ?n (Fin 1)))"
    by (simp add: mul_rows_def ones_def)
  have ones2: "mul_rows_r (ones (length B) ?n) v
               = replicate (length B) (map2 np_mul (replicate ?n (Fin 1)) v)" for v
    by (simp add: mul_rows_r_def ones_def)
  have f_L: "msub (msub (matmul (transpose_n (length B) ?k_L) alphs)
                     (mul_col (mul_rows sumalphs (ones (length B) ?n))
                        (map (\<lambda>c. np_sub (np_div c (Fin (real (length X_S)))) Ksum)
                           (sum_axis0 (length B) ?k_L))))
               (mul_rows_r (ones (length B) ?n) (vecmat Krow alphs))
             = map (\<lambda>x. map2 np_sub
                 (map2 np_sub (vecmat (map (\<lambda>s. ?kv s x) X_S) alphs)
                    (map (\<lambda>y. np_mul y (np_sub (np_div (np_sum (map (\<lambda>s. ?kv s x) X_S))
                                                  (Fin (real (length X_S)))) Ksum))
                       (map2 np_mul sumalphs (replicate ?n (Fin 1)))))
                 (map2 np_mul (replicate ?n (Fin 1)) (vecmat Krow alphs))) B"
    unfolding transpose_n_rows sum_axis0_rows matmul_map ones1 ones2 msub_def mul_col_def
    by (simp add: map2_replicate_l map2_replicate_r map2_map_map comp_def)
  show ?thesis
    unfolding errs_block_def Let_def gramMatrix_rows [OF assms(1)] sum.case
    using assms(2)
    apply (simp only: f_L if_False not_not refl)
    apply (simp add: sum_axis0_rows np_diag_dot_T map2_map_map comp_def row_err_def Let_def)
    done
qed

lemma errs_block_fails:
  assumes "(B \<noteq> [] \<and> X_S \<noteq> [] \<and> ncols X_S \<noteq> ncols B) \<or> length Krow \<noteq> length alphs"
  shows "errs_block self B X_S Krow Ksum sumalphs alphs = Inl ValueError"
proof (cases "B \<noteq> [] \<and> X_S \<noteq> [] \<and> ncols X_S \<noteq> ncols B")
  case True
  then show ?thesis by (simp add: errs_block_def gramMatrix_def)
next
  case False
  with assms have "length Krow \<noteq> length alphs" by simp
  then show ?thesis
    by (simp add: errs_block_def Let_def gramMatrix_rows [OF False])
qed

lemma blocks_cover:
  assumes "0 < (bs::nat)"
  shows "n \<le> ((n + bs - 1) div bs) * bs"
proof -
  have "n + bs - 1 < bs + ((n + bs - 1) div bs) * bs"
    using assms by (rule dividend_less_div_times)
  then show ?thesis by simp
qed

lemma block_start_in_range:
  assumes "0 < (bs::nat)" and "j < (n + bs - 1) div bs"
  shows "j * bs < n"
proof -
  have "Suc j * bs \<le> ((n + bs - 1) div bs) * bs"
    using assms(2) by (intro mult_le_mono1) simp
  also have "\<dots> \<le> n + bs - 1"
    by (rule div_times_less_eq_dividend)
  finally have "j * bs + bs \<le> n + bs - 1" by simp
  moreover have "0 < n"
    using assms by (cases n) simp_all
  ultimately show ?thesis by simp
qed

lemma recon_loop_rows:
  assumes body: "\<And>i. i < length X \<Longrightarrow> body (slice X i (i + bs)) = Inr (map e (slice X i (i + bs)))"
    and bs: "0 < bs"
    and m: "m = (length X + bs - 1) div bs"
  shows "length acc = length X \<Longrightarrow> j \<le> m \<Longrightarrow>
         recon_loop body X bs (map (\<lambda>k. k * bs) [j..<m]) acc
         = Inr (take (j * bs) acc @ map e (drop (j * bs) X))"
proof (induction "m - j" arbitrary: j acc)
  case 0
  then have "j = m" by simp
  moreover have "length X \<le> m * bs"
    unfolding m using bs by (rule blocks_cover)
  ultimately show ?case using 0 by simp
next
  case (Suc k)
  then have jm: "j < m" by simp
  then have lt: "j * bs < length X"
    unfolding m using bs by (intro block_start_in_range) simp_all
  let ?D = "drop (j * bs) X"
  let ?eb = "map e (take bs ?D)"
  let ?acc = "slice_assign acc (j * bs) (j * bs + bs) ?eb"
  have sl: "slice X (j * bs) (j * bs + bs) = take bs ?D"
    by (simp add: slice_def)
  have len: "length ?acc = length X"
    using lt Suc.prems(1) by (auto simp: slice_assign_def min_def)
  have step: "recon_loop body X bs (map (\<lambda>k. k * bs) [j..<m]) acc
              = recon_loop body X bs (map (\<lambda>k. k * bs) [Suc j..<m]) ?acc"
    using jm body [OF lt] by (simp add: upt_conv_Cons sl)
  have "recon_loop body X bs (map (\<lambda>k. k * bs) [Suc j..<m]) ?acc
        = Inr (take (Suc j * bs) ?acc @ map e (drop (Suc j * bs) X))"
    using Suc.hyps(2) jm by (intro Suc.hyps(1) len) simp_all
  moreover have "take (Suc j * bs) ?acc = take (j * bs) acc @ ?eb"
    using lt Suc.prems(1) by (auto simp: slice_assign_def min_def)
  moreover have "?eb @ map e (drop (Suc j * bs) X) = map e ?D"
  proof -
    have "drop (Suc j * bs) X = drop bs ?D"
      by (simp add: add.commute)
    then have "?eb @ map e (drop (Suc j * bs) X) = map e (take bs ?D @ drop bs ?D)"
      by (simp only: map_append)
    then show ?thesis by (simp only: append_take_drop_id)
  qed
  ultimately show ?case using step by simp
qed

lemma slice_nonempty: "i < length X \<Longrightarrow> 0 < bs \<Longrightarrow> slice X i (i + bs) \<noteq> []"
  by (simp add: slice_def)

lemma ncols_slice:
  assumes "\<forall>r\<in>set X. length r = d" and "i < length X" and "0 < bs"
  shows "ncols (slice X i (i + bs)) = d"
proof -
  have "slice X i (i + bs) = X ! i # take (bs - 1) (drop (Suc i) X)"
    using assms(2,3) by (cases bs) (simp_all add: slice_def Cons_nth_drop_Suc [symmetric])
  then show ?thesis using assms(1,2) by (simp add: ncols_def)
qed

lemma length_Krow_of: "length (Krow_of n K_mat) = ncols K_mat"
  by (simp add: Krow_of_def sum_axis0_def)

lemma py_range_pos:
  "0 < step \<Longrightarrow> py_range stop step = Inr (map (\<lambda>k. k * nat step) [0..<(stop + nat step - 1) div nat step])"
  by (simp add: py_range_def)

text \<open>
  With a positive block size and at least one query row, the loop either stops at
  a shape error or returns the errors of the rows, one by one and in order.
\<close>

lemma calc_reconstructionErrors_rows:
  assumes rect: "\<forall>r\<in>set X. length r = d" and bs: "0 < batch_size self" and ne: "X \<noteq> []"
  shows "calc_reconstructionErrors self X X_S K_mat alphs =
     (if length alphs \<noteq> length X_S \<or> (X_S \<noteq> [] \<and> ncols X_S \<noteq> d)
         \<or> ncols K_mat \<noteq> length alphs
      then Inl ValueError
      else Inr (map (row_err (gamma self) X_S (Krow_of (length X_S) K_mat)
                       (Ksum_of (length X_S) (Krow_of (length X_S) K_mat))
                       (vecmat (replicate (length X_S) (Fin 1)) alphs) alphs) X))"
proof -
  let ?bs = "nat (batch_size self)"
  let ?Krow = "Krow_of (length X_S) K_mat"
  let ?Ksum = "Ksum_of (length X_S) ?Krow"
  let ?sa = "vecmat (replicate (length X_S) (Fin 1)) alphs"
  let ?body = "\<lambda>X_block. errs_block self X_block X_S ?Krow ?Ksum ?sa alphs"
  let ?m = "(length X + ?bs - 1) div ?bs"
  let ?acc = "replicate (length X) (Fin 0)"
  from bs have bs': "0 < ?bs" by simp
  have unfold: "calc_reconstructionErrors self X X_S K_mat alphs =
      (if length alphs \<noteq> length X_S then Inl ValueError
       else recon_loop ?body X ?bs (map (\<lambda>k. k * ?bs) [0..<?m]) ?acc)"
    by (simp add: calc_reconstructionErrors_def Let_def py_range_pos [OF bs])
  show ?thesis
  proof (cases "(X_S \<noteq> [] \<and> ncols X_S \<noteq> d) \<or> ncols K_mat \<noteq> length alphs")
    case True
    from ne have n0: "0 < length X" by simp
    have "0 < ?m"
    proof (rule ccontr)
      assume "\<not> 0 < ?m"
      then have "?m = 0" by simp
      with blocks_cover [OF bs', of "length X"] n0 show False by simp
    qed
    then have blocks: "[0..<?m] = 0 # [Suc 0..<?m]"
      by (simp add: upt_conv_Cons)
    have "?body (slice X 0 (0 + ?bs)) = Inl ValueError"
      using True slice_nonempty [OF n0 bs'] ncols_slice [OF rect n0 bs']
      by (intro errs_block_fails) (auto simp: length_Krow_of)
    then have "recon_loop ?body X ?bs (map (\<lambda>k. k * ?bs) [0..<?m]) ?acc = Inl ValueError"
      unfolding blocks by simp
    with True show ?thesis unfolding unfold by auto
  next
    case False
    have body: "?body (slice X i (i + ?bs))
                = Inr (map (row_err (gamma self) X_S ?Krow ?Ksum ?sa alphs) (slice X i (i + ?bs)))"
      if "i < length X" for i
      using False ncols_slice [OF rect that bs']
      by (intro errs_block_rows) (auto simp: length_Krow_of)
    have "recon_loop ?body X ?bs (map (\<lambda>k. k * ?bs) [0..<?m]) ?acc
          = Inr (take (0 * ?bs) ?acc
                 @ map (row_err (gamma self) X_S ?Krow ?Ksum ?sa alphs) (drop (0 * ?bs) X))"
      by (rule recon_loop_rows [OF body bs']) simp_all
    with False show ?thesis unfolding unfold by auto
  qed
qed

text \<open>
  Claim C7 says that for every query array the errors with \<^verbatim>\<open>batch_size = 1\<close> equal
  those with \<^verbatim>\<open>batch_size = n_samples\<close>. For a query array without rows the second
  block size is 0, and \<^verbatim>\<open>range(0, 0, 0)\<close> raises, where block size 1 returns the
  empty vector.
\<close>

theorem blocking_empty_query_counterexample:
  "calc_reconstructionErrors (default_detector\<lparr>batch_size := 1\<rparr>) [] [[Fin 0]] [[Fin 1]] [[Fin 1]]
     = Inr []
   \<and> calc_reconstructionErrors (default_detector\<lparr>batch_size := int (length ([] :: matrix))\<rparr>) []
        [[Fin 0]] [[Fin 1]] [[Fin 1]] = Inl ValueError"
  by (simp add: calc_reconstructionErrors_def py_range_def)

text \<open>
  Claim C7, as amended: for every model state \<open>(X_S, K, alphas)\<close> and every query
  array \<open>X_q\<close> with at least one row, the reconstruction errors computed with
  \<^verbatim>\<open>batch_size = 1\<close> equal (exactly over exact arithmetic, to numerical tolerance
  in floating point) those computed with \<^verbatim>\<open>batch_size = n_samples\<close>, entry by entry
  and in the order of the rows of \<open>X_q\<close> (and the two runs raise the same error when
  the shapes do not fit).
\<close>

theorem blocking_transparent:
  assumes rect: "\<forall>r\<in>set X_q. length r = d" and ne: "X_q \<noteq> []"
  shows "calc_reconstructionErrors (self\<lparr>batch_size := 1\<rparr>) X_q X_S K_mat alphs
       = calc_reconstructionErrors (self\<lparr>batch_size := int (length X_q)\<rparr>) X_q X_S K_mat alphs"
proof -
  from ne have "0 < int (length X_q)" by simp
  then show ?thesis
    by (simp add: calc_reconstructionErrors_rows [OF rect _ ne])
qed

theorem blocking_transparent_witness:
  "calc_reconstructionErrors (default_detector\<lparr>batch_size := 1\<rparr>) [[Fin 0], [Fin 1], [Fin 2]]
       [[Fin 0]] [[Fin 1]] [[Fin 1]]
   = calc_reconstructionErrors
       (default_detector\<lparr>batch_size := int (length [[Fin 0], [Fin 1], [Fin 2]])\<rparr>)
       [[Fin 0], [Fin 1], [Fin 2]] [[Fin 0]] [[Fin 1]] [[Fin 1]]
   \<and> \<not> isl (calc_reconstructionErrors (default_detector\<lparr>batch_size := 1\<rparr>)
              [[Fin 0], [Fin 1], [Fin 2]] [[Fin 0]] [[Fin 1]] [[Fin 1]])"
proof -
  have rect: "\<forall>r\<in>set [[Fin 0], [Fin 1], [Fin 2]]. length r = 1" by simp
  have ne: "[[Fin 0], [Fin 1], [Fin 2]] \<noteq> []" by simp
  have "\<not> isl (calc_reconstructionErrors (default_detector\<lparr>batch_size := 1\<rparr>)
              [[Fin 0], [Fin 1], [Fin 2]] [[Fin 0]] [[Fin 1]] [[Fin 1]])"
    by (simp add: calc_reconstructionErrors_rows [OF rect _ ne] ncols_def)
  with blocking_transparent [OF rect ne, of default_detector "[[Fin 0]]" "[[Fin 1]]" "[[Fin 1]]"]
  show ?thesis by simp
qed

subsection \<open>Double centring\<close>

lemma center_gram_Fin:
  assumes len: "length K = n" and rows: "\<forall>r\<in>set K. length r = n" and n: "0 < n"
  defines "kr \<equiv> \<lambda>j. (\<Sum>i<n. K ! i ! j) / real n"
  defines "ks \<equiv> (\<Sum>j<n. kr j) / real n"
  shows "center_gram n (fm K)
         = map (\<lambda>i. map (\<lambda>j. Fin (K ! i ! j - kr i - kr j + ks)) [0..<n]) [0..<n]"
proof -
  from len n have ne: "K \<noteq> []" by auto
  have nc: "ncols (fm K) = n"
    using ne rows by (cases K) (simp_all add: ncols_def fm_def)
  have Krow: "Krow_of n (fm K) = map (\<lambda>j. Fin (kr j)) [0..<n]"
  proof -
    have "np_div (np_sum (column j (fm K))) (Fin (real n)) = Fin (kr j)" if "j < n" for j
    proof -
      have "column j (fm K) = map Fin (column j K)"
        using rows that by (intro column_fm) simp
      then show ?thesis
        using n len by (simp add: np_sum_Fin sum_list_column kr_def)
    qed
    then show ?thesis
      by (simp add: Krow_of_def sum_axis0_def nc)
  qed
  have Ksum: "Ksum_of n (Krow_of n (fm K)) = Fin ks"
  proof -
    have "map (\<lambda>j. Fin (kr j)) [0..<n] = map Fin (map kr [0..<n])" by simp
    then show ?thesis
      unfolding Krow Ksum_of_def using n
      by (simp only: np_sum_Fin sum_list_upt) (simp add: ks_def)
  qed
  have entry: "fm K ! i ! j = Fin (K ! i ! j)" if "i < n" "j < n" for i j
    using that len rows by (simp add: fm_def)
  have len': "length (fm K) = n"
    using len by (simp add: fm_def)
  have "np_add (np_sub (np_sub (fm K ! i ! j) (Krow_of n (fm K) ! i)) (Krow_of n (fm K) ! j)) (Fin ks)
        = Fin (K ! i ! j - kr i - kr j + ks)" if "i < n" "j < n" for i j
    using that by (simp add: Krow entry np_sub_def)
  then show ?thesis
    unfolding center_gram_def Let_def Ksum nc len'
    by (intro map_cong refl) simp
qed

lemma centered_sums:
  fixes K :: "real list list"
  assumes n: "0 < n"
  defines "kr \<equiv> \<lambda>j. (\<Sum>i<n. K ! i ! j) / real n"
  defines "ks \<equiv> (\<Sum>j<n. kr j) / real n"
  shows "(\<Sum>i<n. K ! i ! j - kr i - kr j + ks) = 0"
    and "(\<forall>j<n. K ! i ! j = K ! j ! i) \<Longrightarrow> (\<Sum>j<n. K ! i ! j - kr i - kr j + ks) = 0"
proof -
  have nks: "real n * ks = (\<Sum>j<n. kr j)"
    using n by (simp add: ks_def)
  have nkr: "real n * kr j = (\<Sum>i<n. K ! i ! j)" for j
    using n by (simp add: kr_def)
  have "(\<Sum>i<n. K ! i ! j - kr i - kr j + ks)
        = (\<Sum>i<n. K ! i ! j) - (\<Sum>i<n. kr i) - real n * kr j + real n * ks"
    by (simp add: sum.distrib sum_subtractf)
  then show "(\<Sum>i<n. K ! i ! j - kr i - kr j + ks) = 0"
    by (simp add: nks nkr)
  assume sym: "\<forall>j<n. K ! i ! j = K ! j ! i"
  have "(\<Sum>j<n. K ! i ! j - kr i - kr j + ks)
        = (\<Sum>j<n. K ! i ! j) - real n * kr i - (\<Sum>j<n. kr j) + real n * ks"
    by (simp add: sum.distrib sum_subtractf)
  also have "(\<Sum>j<n. K ! i ! j) = (\<Sum>j<n. K ! j ! i)"
    using sym by (intro sum.cong) simp_all
  finally show "(\<Sum>j<n. K ! i ! j - kr i - kr j + ks) = 0"
    by (simp add: nks nkr)
qed

text \<open>
  Claim C8: for every symmetric \<open>n \<times> n\<close> array \<open>K\<close> of finite values, the centring
  step of \<^verbatim>\<open>fit\<close> (\<open>K_centered[i,j] = K[i,j] - Krow[i] - Krow[j] + Ksum\<close>) returns an
  \<open>n \<times> n\<close> array every row of which sums to zero and every column of which sums to
  zero, in exact arithmetic.
\<close>

theorem centering_sums_zero:
  assumes len: "length K = n" and rows: "\<forall>r\<in>set K. length r = n"
    and sym: "\<forall>i<n. \<forall>j<n. K ! i ! j = K ! j ! i"
  shows "length (center_gram n (fm K)) = n \<and>
         (\<forall>i<n. length (center_gram n (fm K) ! i) = n \<and>
                 np_sum (center_gram n (fm K) ! i) = Fin 0 \<and>
                 np_sum (column i (center_gram n (fm K))) = Fin 0)"
proof (cases "n = 0")
  case True
  with len show ?thesis by (simp add: center_gram_def fm_def)
next
  case False
  then have n: "0 < n" by simp
  define kr where "kr = (\<lambda>j. (\<Sum>i<n. K ! i ! j) / real n)"
  define ks where "ks = (\<Sum>j<n. kr j) / real n"
  let ?C = "map (\<lambda>i. map (\<lambda>j. Fin (K ! i ! j - kr i - kr j + ks)) [0..<n]) [0..<n]"
  have C: "center_gram n (fm K) = ?C"
    unfolding kr_def ks_def by (rule center_gram_Fin [OF len rows n])
  have row: "np_sum (?C ! i) = Fin 0" if "i < n" for i
  proof -
    have "?C ! i = map Fin (map (\<lambda>j. K ! i ! j - kr i - kr j + ks) [0..<n])"
      using that by simp
    moreover have "(\<Sum>j<n. K ! i ! j - kr i - kr j + ks) = 0"
      unfolding kr_def ks_def using sym that by (intro centered_sums(2) [OF n]) simp
    ultimately show ?thesis by (simp only: np_sum_Fin sum_list_upt)
  qed
  have col: "np_sum (column j ?C) = Fin 0" if "j < n" for j
  proof -
    have "column j ?C = map Fin (map (\<lambda>i. K ! i ! j - kr i - kr j + ks) [0..<n])"
      using that by (simp add: column_def)
    moreover have "(\<Sum>i<n. K ! i ! j - kr i - kr j + ks) = 0"
      unfolding kr_def ks_def by (rule centered_sums(1) [OF n])
    ultimately show ?thesis by (simp only: np_sum_Fin sum_list_upt)
  qed
  show ?thesis unfolding C using row col by simp
qed

theorem centering_sums_zero_witness:
  "np_sum (center_gram 2 (fm [[1, 1 / 2], [1 / 2, 1]]) ! 0) = Fin 0 \<and>
   np_sum (center_gram 2 (fm [[1, 1 / 2], [1 / 2, 1]]) ! 1) = Fin 0 \<and>
   np_sum (column 0 (center_gram 2 (fm [[1, 1 / 2], [1 / 2, 1]]))) = Fin 0 \<and>
   np_sum (column 1 (center_gram 2 (fm [[1, 1 / 2], [1 / 2, 1]]))) = Fin 0"
proof -
  have sym: "\<forall>i<2. \<forall>j<2. [[1, 1 / 2], [1 / 2, 1 :: real]] ! i ! j = [[1, 1 / 2], [1 / 2, 1]] ! j ! i"
    by (auto simp: less_Suc_eq eval_nat_numeral)
  from centering_sums_zero [of "[[1, 1 / 2], [1 / 2, 1]]" 2, OF _ _ sym]
  show ?thesis by simp
qed

subsection \<open>Subsampling\<close>

lemma subsample_None: "subsample_data lib self X None = Inl TypeError"
  by (simp add: subsample_data_def)

text \<open>
  Claim C2 (the subsample may contain every row of \<open>X\<close>) fails on the code: the
  indices are a permutation of \<open>[0, n_sub)\<close>, so every row returned is one of the
  first \<open>n_sub\<close> rows of \<open>X\<close>.
\<close>

theorem subsample_rows_in_prefix:
  assumes res: "subsample_data lib self X (Some p) = Inr X_s"
    and perm: "set (permutation lib (py_int (p * real (length X))))
               \<subseteq> {..<nat (py_int (p * real (length X)))}"
  shows "set X_s \<subseteq> set (take (nat (py_int (p * real (length X)))) X)"
proof -
  let ?n = "py_int (p * real (length X))"
  let ?idx = "permutation lib ?n"
  from res have ok: "list_all (\<lambda>i. i < length X) ?idx" and X_s: "X_s = map (\<lambda>i. X ! i) ?idx"
    by (auto simp: subsample_data_def Let_def split: if_splits)
  show ?thesis
  proof
    fix r assume "r \<in> set X_s"
    then obtain i where i: "i \<in> set ?idx" and r: "r = X ! i"
      unfolding X_s by auto
    from i ok have "i < length X" by (simp add: list_all_iff)
    moreover from i perm have "i < nat ?n" by auto
    ultimately have "take (nat ?n) X ! i = X ! i" and "i < length (take (nat ?n) X)"
      by simp_all
    then show "r \<in> set (take (nat ?n) X)"
      unfolding r by (metis nth_mem)
  qed
qed

theorem subsample_rows_in_prefix_witness:
  "subsample_data example_lib default_detector [[Fin 1], [Fin 2], [Fin 3], [Fin 4]] (Some (1 / 2))
     = Inr [[Fin 2], [Fin 1]] \<and>
   set [[Fin 2], [Fin 1]]
     \<subseteq> set (take (nat (py_int (1 / 2 * real (length [[Fin 1], [Fin 2], [Fin 3], [Fin 4]]))))
              [[Fin 1], [Fin 2], [Fin 3], [Fin 4]])"
proof -
  have a: "subsample_data example_lib default_detector [[Fin 1], [Fin 2], [Fin 3], [Fin 4]]
             (Some (1 / 2)) = Inr [[Fin 2], [Fin 1]]"
    by (simp add: subsample_data_def example_lib_def py_int_def eval_nat_numeral)
  have b: "set (permutation example_lib
                 (py_int (1 / 2 * real (length [[Fin 1], [Fin 2], [Fin 3], [Fin 4]]))))
           \<subseteq> {..<nat (py_int (1 / 2 * real (length [[Fin 1], [Fin 2], [Fin 3], [Fin 4]])))}"
    by (simp add: example_lib_def py_int_def atLeast0LessThan)
  from subsample_rows_in_prefix [OF a b] a show ?thesis by simp
qed

subsection \<open>Eigendecomposition\<close>

lemma eigenDecomp_int:
  assumes "q self = QInt k" and "eigh lib K_centered = Inr (w0, v0)"
  shows "eigenDecomp_gramMatrix lib self K_centered
         = Inr (mul_rows_r (map (py_take k) (map rev v0))
                  (map (\<lambda>l. np_div (Fin 1) (np_sqrt l)) (py_take k (rev w0))))"
  using assms by (simp add: eigenDecomp_gramMatrix_def)

lemma scale_nonfinite:
  assumes "r \<le> 0"
  shows "\<not> is_finite (np_mul x (np_div (Fin 1) (np_sqrt (Fin r))))"
proof (cases "r = 0")
  case True
  then show ?thesis by (cases x) simp_all
next
  case False
  with assms have "r < 0" by simp
  then show ?thesis by (cases x) simp_all
qed

lemma eigenDecomp_nonfinite_column:
  assumes q: "q self = QInt k" and e: "eigh lib K_centered = Inr (w0, v0)"
    and w0: "length w0 = n" and v0: "length v0 = n" and rows: "\<forall>row\<in>set v0. length row = n"
    and k: "0 < k" "k \<le> int n" and j: "j < nat k" and neg: "rev w0 ! j = Fin r" "r \<le> 0"
  shows "\<exists>alphs. eigenDecomp_gramMatrix lib self K_centered = Inr alphs \<and> length alphs = n \<and>
           (\<forall>i<n. length (alphs ! i) = nat k \<and> \<not> is_finite (alphs ! i ! j))"
proof -
  let ?scale = "map (\<lambda>l. np_div (Fin 1) (np_sqrt l)) (py_take k (rev w0))"
  let ?alphs = "mul_rows_r (map (py_take k) (map rev v0)) ?scale"
  have kn: "nat k \<le> n" using k by simp
  have ls: "length ?scale = nat k"
    using k w0 by (simp add: py_take_def)
  have sj: "?scale ! j = np_div (Fin 1) (np_sqrt (Fin r))"
    using k w0 j neg by (simp add: py_take_def)
  have "length (?alphs ! i) = nat k \<and> \<not> is_finite (?alphs ! i ! j)" if "i < n" for i
  proof -
    from that v0 rows have li: "length (v0 ! i) = n" by simp
    have row: "?alphs ! i = map2 np_mul (take (nat k) (rev (v0 ! i))) ?scale"
      using that v0 k by (simp add: mul_rows_r_def py_take_def)
    have "length (take (nat k) (rev (v0 ! i))) = nat k"
      using li kn by simp
    then show ?thesis
      unfolding row using ls j sj scale_nonfinite [OF neg(2)] by simp
  qed
  moreover have "length ?alphs = n"
    using v0 by (simp add: mul_rows_r_def)
  ultimately show ?thesis
    unfolding eigenDecomp_int [OF q e] by blast
qed

lemma threshold_labels:
  assumes "threshold lib self scores c = (Inr labels, self')"
  shows "\<exists>thr. quantile lib scores (1 - c) = Inr thr \<and> self' = self\<lparr>threshold_' := Some thr\<rparr>
           \<and> labels = map (\<lambda>x. if np_lt x thr then Fin 0 else Fin 1) scores"
  using assms by (auto simp: threshold_def Let_def mask_assign_map split: sum.splits)

text \<open>
  Claim C3 (the strings \<open>'same'\<close> and \<open>'auto'\<close> select \<open>n_sub\<close> and \<open>d_features\<close>
  columns) fails on the code: with a string for \<open>q\<close> the method raises, whatever the
  string and the array are.
\<close>

theorem eigenDecomp_string_q_TypeError:
  "eigenDecomp_gramMatrix lib (self\<lparr>q := QStr x\<rparr>) K_centered =
     (case eigh lib K_centered of Inl e \<Rightarrow> Inl e | Inr r \<Rightarrow> Inl TypeError)"
  by (simp add: eigenDecomp_gramMatrix_def split: sum.splits prod.splits)

text \<open>
  Claim C4 says that a retained eigenvalue \<open>\<le> 0\<close> makes the step fail with a domain
  error and that the array returned never holds \<open>nan\<close> or \<open>inf\<close>. For the doubly
  centred unit matrix of size 2 and \<open>q = 2\<close> the eigenvalue 0 is retained, and the
  step returns an array whose second column is \<open>inf\<close>.
\<close>

theorem eigenDecomp_zero_eigenvalue_counterexample:
  "eigenDecomp_gramMatrix example_lib (default_detector\<lparr>q := QInt 2\<rparr>)
     [[Fin (1 / 2), Fin (- 1 / 2)], [Fin (- 1 / 2), Fin (1 / 2)]]
   = Inr [[Fin (- (1 / sqrt 2)), PosInf], [Fin (1 / sqrt 2), PosInf]]"
  by (simp add: eigenDecomp_gramMatrix_def example_lib_def default_detector_def
        mul_rows_r_def py_take_def)

text \<open>
  Claim C4, as amended: for an integer \<open>q\<close> with \<open>0 < q \<le> n_sub\<close> and every centred
  gram matrix whose \<open>q\<close> retained eigenvalues contain a value \<open>\<le> 0\<close>, the step raises
  no error: it returns \<open>alphas\<close> with \<open>q\<close> columns, and every entry of the column of
  such an eigenvalue is \<open>inf\<close>, \<open>-inf\<close> or \<open>nan\<close>. No \<open>nan\<close> reaches the labels all the
  same, because \<^verbatim>\<open>threshold\<close> returns only the labels 0 and 1.
\<close>

theorem eigenDecomp_nonpositive_eigenvalue:
  assumes "q self = QInt k" and "eigh lib K_centered = Inr (w0, v0)"
    and "length w0 = n" and "length v0 = n" and "\<forall>row\<in>set v0. length row = n"
    and "0 < k" and "k \<le> int n" and "j < nat k" and "rev w0 ! j = Fin r" and "r \<le> 0"
  shows "(\<exists>alphs. eigenDecomp_gramMatrix lib self K_centered = Inr alphs \<and> length alphs = n \<and>
            (\<forall>i<n. length (alphs ! i) = nat k \<and> \<not> is_finite (alphs ! i ! j)))
       \<and> (\<forall>labels self'. threshold lib self scores c = (Inr labels, self')
             \<longrightarrow> set labels \<subseteq> {Fin 0, Fin 1})"
proof
  show "\<exists>alphs. eigenDecomp_gramMatrix lib self K_centered = Inr alphs \<and> length alphs = n \<and>
          (\<forall>i<n. length (alphs ! i) = nat k \<and> \<not> is_finite (alphs ! i ! j))"
    using assms by (rule eigenDecomp_nonfinite_column)
  show "\<forall>labels self'. threshold lib self scores c = (Inr labels, self')
          \<longrightarrow> set labels \<subseteq> {Fin 0, Fin 1}"
    by (auto dest!: threshold_labels)
qed

theorem eigenDecomp_nonpositive_eigenvalue_witness:
  "(\<exists>alphs. eigenDecomp_gramMatrix example_lib (default_detector\<lparr>q := QInt 2\<rparr>)
        [[Fin (1 / 2), Fin (- 1 / 2)], [Fin (- 1 / 2), Fin (1 / 2)]] = Inr alphs \<and>
        length alphs = 2 \<and> \<not> is_finite (alphs ! 0 ! 1) \<and> \<not> is_finite (alphs ! 1 ! 1))
   \<and> threshold example_lib (default_detector\<lparr>q := QInt 2\<rparr>) [NaN, Fin 3] (1 / 10)
       = (Inr [Fin 1, Fin 1], default_detector\<lparr>q := QInt 2, threshold_' := Some NaN\<rparr>)
   \<and> set [Fin 1, Fin 1] \<subseteq> {Fin 0, Fin (1::real)}"
proof -
  have e: "eigh example_lib [[Fin (1 / 2), Fin (- 1 / 2)], [Fin (- 1 / 2), Fin (1 / 2)]]
     = Inr ([Fin 0, Fin 1],
            [[Fin (1 / sqrt 2), Fin (- 1 / sqrt 2)], [Fin (1 / sqrt 2), Fin (1 / sqrt 2)]])"
    by (simp add: example_lib_def)
  have r: "rev [Fin 0, Fin 1] ! 1 = Fin 0" by simp
  have t: "threshold example_lib (default_detector\<lparr>q := QInt 2\<rparr>) [NaN, Fin 3] (1 / 10)
       = (Inr [Fin 1, Fin 1], default_detector\<lparr>q := QInt 2, threshold_' := Some NaN\<rparr>)"
    by (simp add: threshold_def example_lib_def example_quantile_def mask_assign_def)
  from eigenDecomp_nonpositive_eigenvalue
         [of "default_detector\<lparr>q := QInt 2\<rparr>" 2 example_lib _ _ _ 2 1 0 "[NaN, Fin 3]" "1 / 10",
          OF _ e _ _ _ _ _ _ r]
  obtain alphs where
    a: "eigenDecomp_gramMatrix example_lib (default_detector\<lparr>q := QInt 2\<rparr>)
          [[Fin (1 / 2), Fin (- 1 / 2)], [Fin (- 1 / 2), Fin (1 / 2)]] = Inr alphs"
       "length alphs = 2"
    and n: "\<forall>i<2. length (alphs ! i) = nat 2 \<and> \<not> is_finite (alphs ! i ! 1)"
    by auto
  from n [rule_format, of 0] n [rule_format, of 1]
  have "\<not> is_finite (alphs ! 0 ! 1)" and "\<not> is_finite (alphs ! 1 ! 1)"
    by simp_all
  with a t show ?thesis by auto
qed

subsection \<open>Thresholding and \<^verbatim>\<open>fit\<close>\<close>

text \<open>
  The block loop reads two attributes of the object only: \<^verbatim>\<open>gamma\<close> and
  \<^verbatim>\<open>batch_size\<close>.
\<close>

lemma calc_reconstructionErrors_cong:
  assumes "gamma s1 = gamma s2" and "batch_size s1 = batch_size s2"
  shows "calc_reconstructionErrors s1 X X_S K_mat alphs
         = calc_reconstructionErrors s2 X X_S K_mat alphs"
proof -
  have eq: "errs_block s1 B X_S Krow Ksum sa alphs = errs_block s2 B X_S Krow Ksum sa alphs"
    for B Krow Ksum sa
    using assms(1) by (simp add: errs_block_def gramMatrix_def Let_def)
  show ?thesis
    unfolding calc_reconstructionErrors_def Let_def eq assms(2) by (rule refl)
qed

lemma fit_adjust_fields:
  "fit_adjust self X d0 = (r, self') \<Longrightarrow>
     contamination self' = contamination self \<and> gamma self' = gamma self
     \<and> batch_size self' = batch_size self"
  by (auto simp: fit_adjust_def Let_def split: if_splits qparam.splits)

lemma threshold_Fin:
  assumes "quantile lib (map Fin rs) (1 - c) = Inr (Fin t)"
  shows "threshold lib self (map Fin rs) c
         = (Inr (map (\<lambda>r. if t \<le> r then Fin 1 else Fin 0) rs), self\<lparr>threshold_' := Some (Fin t)\<rparr>)"
  using assms by (simp add: threshold_def Let_def mask_assign_map comp_def not_le [symmetric] if_distrib cong: if_cong)

lemma fit_stores:
  assumes "fit lib self X d0 = (Inr u, self')"
  shows "\<exists>scores thr. decision_scores_' self' = Some scores
           \<and> fst (decision_function self' (Array2 X)) = Inr scores
           \<and> quantile lib scores (1 - contamination self) = Inr thr
           \<and> threshold_' self' = Some thr
           \<and> labels_' self' = Some (map (\<lambda>x. if np_lt x thr then Fin 0 else Fin 1) scores)"
proof -
  obtain r1 s1 where
    a: "fit_adjust (self\<lparr>d_features := Some (shape1 d0 X)\<rparr>) X d0 = (r1, s1)"
    by (cases "fit_adjust (self\<lparr>d_features := Some (shape1 d0 X)\<rparr>) X d0")
  from fit_adjust_fields [OF a] have c: "contamination s1 = contamination self" by simp
  have cong: "calc_reconstructionErrors (s1\<lparr>model_alphas := ma, model_X_S := mx, model_K_mat := mk,
                 decision_scores_' := ds, threshold_' := th, labels_' := lb\<rparr>) X X_S K_mat alphs
              = calc_reconstructionErrors (s1\<lparr>model_alphas := ma, model_X_S := mx, model_K_mat := mk\<rparr>)
                  X X_S K_mat alphs" for ma mx mk ds th lb X_S K_mat alphs
    by (rule calc_reconstructionErrors_cong) simp_all
  from assms a c show ?thesis
    by (auto simp: fit_def Let_def decision_function_def cong
          split: sum.splits prod.splits if_splits dest!: threshold_labels)
qed

lemma symmetrize_shape:
  assumes "X \<noteq> []"
  shows "ncols (symmetrize (map (\<lambda>s. map (F s) X) X)) = length X"
proof -
  let ?K = "map (\<lambda>s. map (F s) X) X"
  have nc: "ncols ?K = length X"
    using assms by (simp add: ncols_map_const)
  have "madd ?K (transpose_n (ncols ?K) ?K)
        = map (\<lambda>x. map2 np_add (map (F x) X) (map (\<lambda>s. F s x) X)) X"
    unfolding nc transpose_n_rows madd_def by (rule map2_map_map)
  then show ?thesis
    using assms by (cases X) (simp_all add: symmetrize_def ncols_def)
qed

text \<open>
  With an integer \<open>q\<close>, the whole data as subsample, a positive block size and a
  library that returns, \<^verbatim>\<open>fit\<close> returns.
\<close>

lemma fit_returns:
  assumes q: "q self = QInt k"
    and na: "\<not> py_int (sample_pct self * real (length X)) < int (ncols X)"
    and full: "1 \<le> sample_pct self"
    and rect: "\<forall>r\<in>set X. length r = d" and ne: "X \<noteq> []"
    and eig: "\<And>K. \<exists>w0 v0. eigh lib K = Inr (w0, v0) \<and> length v0 = length X"
    and bs: "0 < batch_size self"
    and qu: "\<And>v. \<exists>thr. quantile lib v (1 - contamination self) = Inr thr"
  shows "\<exists>self'. fit lib self X d0 = (Inr (), self')"
proof -
  have sh: "shape1 d0 X = ncols X"
    using ne by (simp add: shape1_def)
  let ?s = "self\<lparr>d_features := Some (ncols X)\<rparr>"
  let ?G = "map (\<lambda>s. map (kernel_val (gamma ?s) s) X) X"
  let ?K = "symmetrize ?G"
  have adj: "fit_adjust ?s X d0 = (Inr (), ?s)"
    using na by (simp add: fit_adjust_def Let_def sh)
  have gram: "gramMatrix ?s X X = Inr ?G"
    by (rule gramMatrix_rows) simp
  obtain w0 v0 where e: "eigh lib (center_gram (length X) ?K) = Inr (w0, v0)"
    and v0: "length v0 = length X"
    using eig by blast
  let ?alphs = "mul_rows_r (map (py_take k) (map rev v0))
                  (map (\<lambda>l. np_div (Fin 1) (np_sqrt l)) (py_take k (rev w0)))"
  have dec: "eigenDecomp_gramMatrix lib ?s (center_gram (length X) ?K) = Inr ?alphs"
    using q e by (intro eigenDecomp_int) simp_all
  have la: "length ?alphs = length X"
    using v0 by (simp add: mul_rows_r_def)
  let ?s2 = "?s\<lparr>model_alphas := Some ?alphs, model_X_S := Some X, model_K_mat := Some ?K\<rparr>"
  have ncX: "ncols X = d"
    using ne rect by (cases X) (simp_all add: ncols_def)
  have "\<exists>scores. calc_reconstructionErrors ?s2 X X ?K ?alphs = Inr scores"
    using bs la ncX symmetrize_shape [OF ne, of "kernel_val (gamma ?s)"]
    by (simp add: calc_reconstructionErrors_rows [OF rect _ ne])
  then obtain scores where calc: "calc_reconstructionErrors ?s2 X X ?K ?alphs = Inr scores" ..
  obtain thr where thr: "quantile lib scores (1 - contamination self) = Inr thr"
    using qu by blast
  show ?thesis
    using full adj gram dec calc thr
    by (simp add: fit_def Let_def threshold_def sh)
qed

text \<open>
  On an array without rows that has columns, \<^verbatim>\<open>fit\<close> stops in its first \<^verbatim>\<open>if\<close>: an
  integer \<open>q\<close> leads to the division by \<^verbatim>\<open>X.shape[0]\<close>, which is 0.
\<close>

lemma fit_no_rows_ZeroDivisionError:
  assumes "q self = QInt k" and "0 < d0"
  shows "fst (fit lib self [] d0) = Inl ZeroDivisionError"
  using assms by (simp add: fit_def fit_adjust_def shape1_def py_int_def Let_def)

lemma example_quantile_returns:
  "0 \<le> p \<Longrightarrow> p \<le> 1 \<Longrightarrow> \<exists>thr. example_quantile v p = Inr thr"
  by (simp add: example_quantile_def)

lemma fit_example_returns:
  "\<exists>self'. fit example_lib (default_detector\<lparr>q := QInt 1\<rparr>) [[Fin 0], [Fin 1]] 1
           = (Inr (), self')"
proof (rule fit_returns [where k = 1 and d = 1])
  show "\<exists>thr. quantile example_lib v (1 - contamination (default_detector\<lparr>q := QInt 1\<rparr>)) = Inr thr" for v
    by (simp add: example_lib_def default_detector_def example_quantile_returns)
qed (simp_all add: default_detector_def example_lib_def py_int_def ncols_def)

lemma np_ge_iff_not_lt: "x \<noteq> NaN \<Longrightarrow> y \<noteq> NaN \<Longrightarrow> np_ge x y = (\<not> np_lt x y)"
  by (cases x; cases y) auto

lemma threshold_returns:
  assumes "quantile lib scores (1 - c) = Inr thr"
  shows "threshold lib self scores c
         = (Inr (map (\<lambda>x. if np_lt x thr then Fin 0 else Fin 1) scores),
            self\<lparr>threshold_' := Some thr\<rparr>)"
  using assms by (simp add: threshold_def Let_def mask_assign_map)

lemma labels_ge_rule:
  assumes "thr \<noteq> NaN" and "NaN \<notin> set scores"
  shows "map (\<lambda>x. if np_lt x thr then Fin 0 else Fin 1) scores
         = map (\<lambda>x. if np_ge x thr then Fin 1 else Fin 0) scores"
proof (rule map_cong [OF refl])
  fix x assume "x \<in> set scores"
  with assms have "np_ge x thr = (\<not> np_lt x thr)"
    by (intro np_ge_iff_not_lt) auto
  then show "(if np_lt x thr then Fin 0 else Fin 1) = (if np_ge x thr then Fin 1 else Fin 0)"
    by simp
qed

text \<open>
  Claim C9 says that for every score vector the label is 1 where the score is at
  least the threshold and 0 otherwise. For the scores \<open>nan\<close> and 3 the quantile is
  \<open>nan\<close>, no score is at least the threshold, and both labels are 1: the method
  starts from ones and writes 0 where \<^verbatim>\<open>scores < threshold_\<close>, which is false for
  \<open>nan\<close>.
\<close>

theorem threshold_nan_score_counterexample:
  "threshold example_lib default_detector [NaN, Fin 3] (1 / 10)
     = (Inr [Fin 1, Fin 1], default_detector\<lparr>threshold_' := Some NaN\<rparr>)
   \<and> \<not> np_ge NaN NaN \<and> \<not> np_ge (Fin 3) NaN"
  by (simp add: threshold_def example_lib_def example_quantile_def mask_assign_def)

text \<open>
  Claim C9, as amended: for every score vector \<open>s\<close> and every contamination \<open>c\<close> for
  which \<^verbatim>\<open>np.quantile(s, 1 - c)\<close> returns, \<^verbatim>\<open>threshold\<close> stores that quantile as
  \<^verbatim>\<open>threshold_\<close> and returns a label vector of the same length with
  \<open>labels[i] = 0\<close> if \<open>s[i] < threshold\<close> and \<open>labels[i] = 1\<close> otherwise; this is the
  rule "1 if \<open>s[i] \<ge> threshold\<close>, else 0" when neither a score nor the threshold is
  \<open>nan\<close>, and a \<open>nan\<close> score or threshold gives the label 1. A \<^verbatim>\<open>fit\<close> that returns has
  stored the training scores (the scores that \<^verbatim>\<open>decision_function\<close> gives for the
  training data) as \<^verbatim>\<open>decision_scores_\<close>, their quantile at \<open>1 - contamination\<close> as
  \<^verbatim>\<open>threshold_\<close> and the labels of these scores against it as \<^verbatim>\<open>labels_\<close>.
\<close>

theorem threshold_quantile_labels:
  "(quantile lib scores (1 - c) = Inr thr \<longrightarrow>
      threshold lib self scores c
        = (Inr (map (\<lambda>x. if np_lt x thr then Fin 0 else Fin 1) scores),
           self\<lparr>threshold_' := Some thr\<rparr>)
      \<and> (thr \<noteq> NaN \<and> NaN \<notin> set scores \<longrightarrow>
           map (\<lambda>x. if np_lt x thr then Fin 0 else Fin 1) scores
           = map (\<lambda>x. if np_ge x thr then Fin 1 else Fin 0) scores))
   \<and> (fit lib self X d0 = (Inr (), self') \<longrightarrow>
        (\<exists>scores thr. decision_scores_' self' = Some scores
           \<and> fst (decision_function self' (Array2 X)) = Inr scores
           \<and> quantile lib scores (1 - contamination self) = Inr thr
           \<and> threshold_' self' = Some thr
           \<and> labels_' self' = Some (map (\<lambda>x. if np_lt x thr then Fin 0 else Fin 1) scores)))"
  using threshold_returns [of lib scores c thr self] labels_ge_rule [of thr scores]
    fit_stores [of lib self X d0 "()" self']
  by blast

theorem threshold_quantile_labels_witness:
  "threshold example_lib default_detector [Fin 3, Fin 1, Fin 2, Fin 5, Fin 4] (1 / 10)
     = (Inr [Fin 0, Fin 0, Fin 0, Fin 1, Fin 0],
        default_detector\<lparr>threshold_' := Some (Fin (23 / 5))\<rparr>)
   \<and> map (\<lambda>x. if np_ge x (Fin (23 / 5)) then Fin 1 else Fin 0) [Fin 3, Fin 1, Fin 2, Fin 5, Fin 4]
     = [Fin 0, Fin 0, Fin 0, Fin 1, Fin (0::real)]
   \<and> (\<exists>self' scores thr.
        fit example_lib (default_detector\<lparr>q := QInt 1\<rparr>) [[Fin 0], [Fin 1]] 1 = (Inr (), self')
        \<and> decision_scores_' self' = Some scores
        \<and> fst (decision_function self' (Array2 [[Fin 0], [Fin 1]])) = Inr scores
        \<and> quantile example_lib scores (1 - contamination (default_detector\<lparr>q := QInt 1\<rparr>)) = Inr thr
        \<and> threshold_' self' = Some thr
        \<and> labels_' self' = Some (map (\<lambda>x. if np_lt x thr then Fin 0 else Fin 1) scores))"
proof -
  let ?sc = "[Fin 3, Fin 1, Fin 2, Fin 5, Fin 4]"
  have qu: "quantile example_lib ?sc (1 - 1 / 10) = Inr (Fin (23 / 5))"
    by (simp add: example_lib_def example_quantile_def quantile_linear_def Let_def)
  have nn: "Fin (23 / 5) \<noteq> NaN \<and> NaN \<notin> set ?sc" by simp
  obtain self' where
    f: "fit example_lib (default_detector\<lparr>q := QInt 1\<rparr>) [[Fin 0], [Fin 1]] 1 = (Inr (), self')"
    using fit_example_returns by blast
  from threshold_quantile_labels
         [where lib = example_lib and scores = ?sc and c = "1 / 10" and thr = "Fin (23 / 5)"
            and self = default_detector] qu nn
  have a: "threshold example_lib default_detector ?sc (1 / 10)
            = (Inr (map (\<lambda>x. if np_lt x (Fin (23 / 5)) then Fin 0 else Fin 1) ?sc),
               default_detector\<lparr>threshold_' := Some (Fin (23 / 5))\<rparr>)"
    and g: "map (\<lambda>x. if np_lt x (Fin (23 / 5)) then Fin 0 else Fin 1) ?sc
            = map (\<lambda>x. if np_ge x (Fin (23 / 5)) then Fin 1 else Fin 0) ?sc"
    by blast+
  have v: "map (\<lambda>x. if np_lt x (Fin (23 / 5)) then Fin 0 else Fin 1) ?sc
           = [Fin 0, Fin 0, Fin 0, Fin 1, Fin (0::real)]"
    by simp
  from threshold_quantile_labels
         [where lib = example_lib and self = "default_detector\<lparr>q := QInt 1\<rparr>"
            and X = "[[Fin 0], [Fin 1]]" and ?d0.0 = 1 and self' = self'] f
  have b: "\<exists>scores thr. decision_scores_' self' = Some scores
           \<and> fst (decision_function self' (Array2 [[Fin 0], [Fin 1]])) = Inr scores
           \<and> quantile example_lib scores (1 - contamination (default_detector\<lparr>q := QInt 1\<rparr>)) = Inr thr
           \<and> threshold_' self' = Some thr
           \<and> labels_' self' = Some (map (\<lambda>x. if np_lt x thr then Fin 0 else Fin 1) scores)"
    by blast
  from a g v have a': "threshold example_lib default_detector ?sc (1 / 10)
     = (Inr [Fin 0, Fin 0, Fin 0, Fin 1, Fin 0],
        default_detector\<lparr>threshold_' := Some (Fin (23 / 5))\<rparr>)"
    and g': "map (\<lambda>x. if np_ge x (Fin (23 / 5)) then Fin 1 else Fin 0) ?sc
     = [Fin 0, Fin 0, Fin 0, Fin 1, Fin (0::real)]"
    by simp_all
  from a' g' b f show ?thesis by blast
qed

subsection \<open>\<^verbatim>\<open>decision_function\<close> and \<^verbatim>\<open>predict\<close>\<close>

lemma init_default: "init 3 (QStr ''same'') 1 1 500 (1 / 10) False = Inr default_detector"
  by (simp add: init_def default_detector_def)

lemma predict_state: "snd (predict depth self X_test thr) = self"
proof (induction depth arbitrary: X_test thr)
  case 0
  show ?case by simp
next
  case (Suc depth)
  let ?X = "case X_test of Array1 v \<Rightarrow> Array2 (expand_dims0 v) | Array2 M \<Rightarrow> Array2 M"
  from Suc.IH [of ?X None] show ?case
    by (auto simp: Let_def split: option.splits sum.splits prod.splits)
qed

lemma predict_fitted_RecursionError:
  "threshold_' self = Some t \<Longrightarrow> predict depth self X_test thr = (Inl RecursionError, self)"
proof (induction depth arbitrary: X_test thr)
  case 0
  show ?case by simp
next
  case (Suc depth)
  let ?X = "case X_test of Array1 v \<Rightarrow> Array2 (expand_dims0 v) | Array2 M \<Rightarrow> Array2 M"
  from Suc.IH [OF Suc.prems, of ?X None] Suc.prems show ?case
    by (auto simp: Let_def split: option.splits sum.splits prod.splits)
qed

text \<open>
  Claim C1 (\<^verbatim>\<open>predict\<close> gets its scores from \<^verbatim>\<open>decision_function\<close> and returns the
  labels) fails on the code: \<^verbatim>\<open>predict\<close> calls itself, so whatever the recursion
  limit, the object and the arguments are, it ends in an exception and leaves the
  object as it was.
\<close>

theorem predict_never_returns_labels:
  "fst (predict depth self X_test thr)
     \<in> {Inl RecursionError, Inl (AttributeError ''threshold_'')}
   \<and> snd (predict depth self X_test thr) = self"
proof
  show "fst (predict depth self X_test thr)
          \<in> {Inl RecursionError, Inl (AttributeError ''threshold_'')}"
  proof (induction depth arbitrary: X_test thr)
    case 0
    show ?case by simp
  next
    case (Suc depth)
    let ?X = "case X_test of Array1 v \<Rightarrow> Array2 (expand_dims0 v) | Array2 M \<Rightarrow> Array2 M"
    from Suc.IH [of ?X None] show ?case
      by (auto simp: Let_def split: option.splits sum.splits prod.splits)
  qed
  show "snd (predict depth self X_test thr) = self"
    by (rule predict_state)
qed

text \<open>
  Claim C5 says that before \<^verbatim>\<open>fit\<close> the two methods fail with an explicit
  "not fitted" error and not with an attribute error. On the object built from
  the default arguments both raise \<^verbatim>\<open>AttributeError\<close>.
\<close>

theorem unfitted_AttributeError_counterexample:
  "fst (decision_function default_detector (Array2 [[Fin 0]])) = Inl (AttributeError ''model_X_S'')
   \<and> fst (predict (Suc 999) default_detector (Array2 [[Fin 0]]) None)
       = Inl (AttributeError ''threshold_'')"
proof -
  have "predict (Suc d) default_detector (Array2 [[Fin 0]]) None
        = (Inl (AttributeError ''threshold_''), default_detector)" for d
    by (simp add: default_detector_def)
  from this [of 999] show ?thesis
    by (simp add: decision_function_def default_detector_def)
qed

text \<open>
  Claim C5, as amended: on every detector on which \<^verbatim>\<open>fit\<close> has not been called, and
  for every input, \<^verbatim>\<open>decision_function\<close> fails with the \<^verbatim>\<open>AttributeError\<close> of the
  missing attribute \<^verbatim>\<open>model_X_S\<close> and \<^verbatim>\<open>predict\<close> (with a recursion limit of at least
  two frames) with that of the missing \<^verbatim>\<open>threshold_\<close>, which with a threshold given
  is reached in the call of \<^verbatim>\<open>predict\<close> to itself; there is no check of the state and
  no error of its own for it.
\<close>

theorem unfitted_raises_AttributeError:
  assumes "init order0 q0 sigma0 pct bs c vb = Inr self"
  shows "fst (decision_function self X_test) = Inl (AttributeError ''model_X_S'')
       \<and> fst (predict (Suc (Suc depth)) self X_test thr) = Inl (AttributeError ''threshold_'')"
proof -
  from assms have m: "model_X_S self = None" and t: "threshold_' self = None"
    by (auto simp: init_def split: if_splits)
  have "fst (decision_function self X_test) = Inl (AttributeError ''model_X_S'')"
    using m by (simp add: decision_function_def)
  moreover have "fst (predict (Suc (Suc depth)) self X_test thr) = Inl (AttributeError ''threshold_'')"
    using t by (cases thr) (simp_all add: Let_def)
  ultimately show ?thesis by simp
qed

theorem unfitted_raises_AttributeError_witness:
  "init 3 (QStr ''same'') 1 1 500 (1 / 10) False = Inr default_detector
   \<and> fst (decision_function default_detector (Array1 [Fin 0])) = Inl (AttributeError ''model_X_S'')
   \<and> fst (predict (Suc (Suc 998)) default_detector (Array1 [Fin 0]) (Some (Fin 1)))
       = Inl (AttributeError ''threshold_'')"
  using unfitted_raises_AttributeError [OF init_default, of "Array1 [Fin 0]" 998 "Some (Fin 1)"]
    init_default
  by simp

text \<open>
  Claim C10: \<^verbatim>\<open>decision_function\<close> leaves the object as it was, whatever the object
  and the input are and whether it returns scores or raises: \<^verbatim>\<open>model_X_S\<close>,
  \<^verbatim>\<open>model_K_mat\<close>, \<^verbatim>\<open>model_alphas\<close>, \<^verbatim>\<open>threshold_\<close>, \<^verbatim>\<open>decision_scores_\<close>, \<^verbatim>\<open>labels_\<close> and
  every other attribute are unchanged.
\<close>

theorem decision_function_frame:
  "snd (decision_function self X_test) = self"
  by (simp add: decision_function_def Let_def split: option.splits)

end
